(* ===== verification/Prelude.thy ===== *)
theory Prelude
  imports Main "HOL-Library.Word" "HOL-Library.Sublist"
begin

text \<open>
  Shared vocabulary of the Saathi development. JavaScript strings are sequences of
  UTF-16 code units (\<open>16 word\<close>); \<open>Date\<close> values are read through
  \<open>getTime()\<close>, milliseconds since the epoch, as \<open>int\<close>. The theory also models the
  one JavaScript primitive that every component uses on lists and strings alike,
  \<open>Array.prototype.slice\<close> / \<open>String.prototype.slice\<close> with relative (negative)
  indices, and collects the list lemmas the components share.
\<close>

named_theorems js_eval "equations that evaluate the JavaScript primitives on literal inputs"

type_synonym code_unit = "16 word"
type_synonym jstr = "code_unit list"
type_synonym timestamp = int

text \<open>An ASCII literal of the source as a JavaScript string.\<close>

definition js :: "string \<Rightarrow> jstr" where
  "js s = map (\<lambda>c. word_of_nat (of_char c)) s"

subsection \<open>Relative indices and \<open>slice\<close>\<close>

text \<open>
  ECMAScript clamps a relative index \<open>k\<close> against a length \<open>len\<close>: a negative
  index counts from the end and stops at 0, a non-negative one stops at \<open>len\<close>.
\<close>

definition rel_index :: "int \<Rightarrow> nat \<Rightarrow> nat" where
  "rel_index k len = (if k < 0 then nat (max (int len + k) 0) else nat (min k (int len)))"

text \<open>\<open>xs.slice(k)\<close> and \<open>xs.slice(k, e)\<close>.\<close>

definition js_slice_from :: "int \<Rightarrow> 'a list \<Rightarrow> 'a list" where
  "js_slice_from k xs = drop (rel_index k (length xs)) xs"

definition js_slice :: "int \<Rightarrow> int \<Rightarrow> 'a list \<Rightarrow> 'a list" where
  "js_slice k e xs =
     (let from = rel_index k (length xs); to = rel_index e (length xs)
      in take (to - from) (drop from xs))"

subsection \<open>Lemmas\<close>

lemma js_Nil [simp, js_eval]: "js [] = []"
  and js_Cons [simp, js_eval]: "js (c # s) = word_of_nat (of_char c) # js s"
  and js_append [simp]: "js (s @ t) = js s @ js t"
  by (simp_all add: js_def)

lemma js_inj [simp]: "js s = js t \<longleftrightarrow> s = t"
proof -
  have "inj (\<lambda>c. word_of_nat (of_char c) :: code_unit)"
  proof (rule injI)
    fix a b :: char
    assume "(word_of_nat (of_char a) :: code_unit) = word_of_nat (of_char b)"
    then have "unat (word_of_nat (of_char a) :: code_unit) = unat (word_of_nat (of_char b) :: code_unit)"
      by simp
    moreover have "of_char a < (2::nat) ^ 16" "of_char b < (2::nat) ^ 16"
      using nat_of_char_less_256 [of a] nat_of_char_less_256 [of b] by (simp_all, linarith+)
    ultimately have "(of_char a :: nat) = of_char b" by (simp add: unat_of_nat take_bit_nat_eq_self)
    then show "a = b" by simp
  qed
  then show ?thesis by (simp add: js_def inj_map_eq_map)
qed

lemma js_eq_Nil [simp]: "js s = [] \<longleftrightarrow> s = []"
  by (simp add: js_def)

lemma length_js [simp]: "length (js s) = length s"
  by (simp add: js_def)

lemma rel_index_neg_numeral [simp]: "rel_index (- numeral k) len = len - numeral k"
  by (simp add: rel_index_def max_def nat_minus_as_int)

lemma rel_index_zero [simp]: "rel_index 0 len = 0"
  by (simp add: rel_index_def)

lemma rel_index_numeral [simp]: "rel_index (numeral k) len = min (numeral k) len"
  by (simp add: rel_index_def nat_le_iff min_def)

text \<open>\<open>slice(-n)\<close> for a literal \<open>n > 0\<close> keeps the last \<open>n\<close> elements. (For
  \<open>n = 0\<close> JavaScript keeps all of them, since \<open>-0 = 0\<close>: the lemmas are stated
  for numerals, which are positive.)\<close>

lemma js_slice_from_neg: "js_slice_from (- numeral k) xs = drop (length xs - numeral k) xs"
  by (simp add: js_slice_from_def)

lemma length_js_slice_from_neg [simp]:
  "length (js_slice_from (- numeral k) xs) = min (numeral k) (length xs)"
  by (simp add: js_slice_from_def)

lemma suffix_js_slice_from: "suffix (js_slice_from k xs) xs"
  by (simp add: js_slice_from_def suffix_drop)

lemma js_slice_from_neg_short: "length xs \<le> numeral k \<Longrightarrow> js_slice_from (- numeral k) xs = xs"
  by (simp add: js_slice_from_def)

lemma js_slice_prefix: "js_slice 0 (numeral k) xs = take (numeral k) xs"
  by (simp add: js_slice_def min_def)

lemmas slice_simps = js_slice_from_neg js_slice_prefix

lemma distinct_map_snd_eq:
  "distinct (map snd xs) \<Longrightarrow> (x, b) \<in> set xs \<Longrightarrow> (y, b) \<in> set xs \<Longrightarrow> x = y"
  by (metis distinct_map inj_onD prod.inject snd_conv)

end
