(* ===== verification/JsString.thy ===== *)
theory JsString
  imports Prelude
begin

text \<open>
  The \<open>String.prototype\<close> methods the server and the client call, on strings of
  UTF-16 code units: \<open>toLowerCase\<close> (\<open>to_lower\<close>), \<open>includes\<close>
  (\<open>str_includes\<close>, proved equal to the library's contiguous \<open>sublist\<close>),
  \<open>trim\<close> (\<open>js_trim\<close>, with the ECMAScript white-space set) and \<open>substr\<close>
  (\<open>js_substr\<close>). \<open>toLowerCase\<close> is the Unicode lower-case mapping; the model
  writes it out for Basic Latin and Latin-1 and for the three code points outside them
  whose lower case lies in Latin-1 (U+0130, U+212A, U+212B), and is the identity on
  everything else (Devanagari has no case, so it is exact there).
\<close>

subsection \<open>\<open>toLowerCase\<close>\<close>

definition lower_unit :: "code_unit \<Rightarrow> jstr" where
  "lower_unit c =
     (if 0x41 \<le> c \<and> c \<le> 0x5A then [c + 0x20]
      else if 0xC0 \<le> c \<and> c \<le> 0xDE \<and> c \<noteq> 0xD7 then [c + 0x20]
      else if c = 0x130 then [0x69, 0x307]
      else if c = 0x212A then [0x6B]
      else if c = 0x212B then [0xE5]
      else [c])"

definition to_lower :: "jstr \<Rightarrow> jstr" where
  "to_lower s = concat (map lower_unit s)"

subsection \<open>\<open>includes\<close>\<close>

text \<open>\<open>s.includes(k)\<close>: the search tries every start position of \<open>s\<close> in turn.\<close>

fun str_includes :: "jstr \<Rightarrow> jstr \<Rightarrow> bool" where
  "str_includes [] k = (k = [])"
| "str_includes (c # cs) k = (prefix k (c # cs) \<or> str_includes cs k)"

subsection \<open>\<open>trim\<close> and \<open>substr\<close>\<close>

text \<open>ECMAScript \<open>WhiteSpace\<close> and \<open>LineTerminator\<close> code points: TAB, VT, FF,
  ZWNBSP, the \<open>Zs\<close> category and LF, CR, LS, PS.\<close>

definition is_js_ws :: "code_unit \<Rightarrow> bool" where
  "is_js_ws c \<longleftrightarrow>
     c \<in> set [0x9, 0xA, 0xB, 0xC, 0xD, 0x20, 0xA0, 0x1680, 0x2028, 0x2029, 0x202F, 0x205F,
              0x3000, 0xFEFF]
     \<or> (0x2000 \<le> c \<and> c \<le> 0x200A)"

definition js_trim :: "jstr \<Rightarrow> jstr" where
  "js_trim s = rev (dropWhile is_js_ws (rev (dropWhile is_js_ws s)))"

text \<open>\<open>s.substr(start, length)\<close> for non-negative arguments.\<close>

definition js_substr :: "nat \<Rightarrow> nat \<Rightarrow> jstr \<Rightarrow> jstr" where
  "js_substr start len s = take len (drop start s)"

declare lower_unit_def [js_eval] to_lower_def [js_eval] is_js_ws_def [js_eval]
  js_trim_def [js_eval] js_substr_def [js_eval]

subsection \<open>Lemmas\<close>

lemma to_lower_Nil [simp]: "to_lower [] = []"
  and to_lower_Cons [simp]: "to_lower (c # s) = lower_unit c @ to_lower s"
  and to_lower_append [simp]: "to_lower (s @ t) = to_lower s @ to_lower t"
  by (simp_all add: to_lower_def)

text \<open>The search routine decides the library's contiguous-substring relation.\<close>

lemma str_includes_iff_sublist: "str_includes s k \<longleftrightarrow> sublist k s"
  by (induction s) (auto simp: sublist_Cons_right)

lemma str_includes_append: "str_includes t k \<Longrightarrow> str_includes (s @ t @ u) k"
  unfolding str_includes_iff_sublist sublist_def by (metis append.assoc)

text \<open>Characters that \<open>toLowerCase\<close> leaves alone.\<close>

lemma lower_unit_fixed:
  "\<not> (0x41 \<le> c \<and> c \<le> 0x5A) \<Longrightarrow> \<not> (0xC0 \<le> c \<and> c \<le> 0xDE) \<Longrightarrow>
   c \<notin> {0x130, 0x212A, 0x212B} \<Longrightarrow> lower_unit c = [c]"
  by (auto simp: lower_unit_def)

lemma to_lower_fixed:
  "\<forall>c\<in>set s. lower_unit c = [c] \<Longrightarrow> to_lower s = s"
  by (induction s) auto

text \<open>White space is its own lower case.\<close>

lemma lower_unit_ws:
  assumes "is_js_ws c"
  shows "lower_unit c = [c]"
proof -
  have "unat c \<in> {9, 10, 11, 12, 13, 32, 160, 5760, 8232, 8233, 8239, 8287, 12288, 65279}
        \<or> (8192 \<le> unat c \<and> unat c \<le> 8202)"
    using assms by (auto simp: is_js_ws_def word_le_nat_alt)
  then have "\<not> (65 \<le> unat c \<and> unat c \<le> 90) \<and> \<not> (192 \<le> unat c \<and> unat c \<le> 222)
             \<and> unat c \<noteq> 304 \<and> unat c \<noteq> 8490 \<and> unat c \<noteq> 8491"
    by auto
  then show ?thesis
    by (intro lower_unit_fixed) (simp_all add: word_le_nat_alt word_unat_eq_iff)
qed

subsubsection \<open>\<open>trim\<close>\<close>

lemma all_dropWhile_iff: "(\<forall>c\<in>set (dropWhile P s). P c) \<longleftrightarrow> dropWhile P s = []"
proof (cases "dropWhile P s = []")
  case False
  then have "\<not> P (hd (dropWhile P s))" by (rule hd_dropWhile)
  moreover have "hd (dropWhile P s) \<in> set (dropWhile P s)"
    using False by (rule list.set_sel(1))
  ultimately show ?thesis using False by blast
next
  case True
  then show ?thesis by (simp del: dropWhile_eq_Nil_conv)
qed

lemma js_trim_Nil_iff: "js_trim s = [] \<longleftrightarrow> (\<forall>c\<in>set s. is_js_ws c)"
  by (simp add: js_trim_def dropWhile_eq_Nil_conv all_dropWhile_iff del: set_dropWhileD)

lemma rev_dropWhile_split: "t = rev (dropWhile P (rev t)) @ rev (takeWhile P (rev t))"
proof -
  have "rev (rev t) = rev (takeWhile P (rev t) @ dropWhile P (rev t))"
    by (simp only: takeWhile_dropWhile_id)
  then show ?thesis by (simp only: rev_rev_ident rev_append)
qed

lemma dropWhile_idem: "dropWhile P (dropWhile P xs) = dropWhile P xs"
  by (induction xs) auto

lemma js_trim_idem: "js_trim (js_trim s) = js_trim s"
proof -
  let ?u = "dropWhile is_js_ws s"
  have t: "js_trim s = rev (dropWhile is_js_ws (rev ?u))" by (simp add: js_trim_def)
  have front: "dropWhile is_js_ws (js_trim s) = js_trim s"
  proof (cases "js_trim s")
    case (Cons x xs)
    have "?u = js_trim s @ rev (takeWhile is_js_ws (rev ?u))"
      unfolding t by (rule rev_dropWhile_split)
    with Cons have u: "?u = x # (xs @ rev (takeWhile is_js_ws (rev ?u)))" by simp
    have "\<not> is_js_ws (hd ?u)" by (rule hd_dropWhile) (subst u, simp)
    then have "\<not> is_js_ws x" by (subst (asm) u) simp
    with Cons show ?thesis by simp
  qed simp
  have "js_trim (js_trim s) = rev (dropWhile is_js_ws (rev (js_trim s)))"
    by (simp add: js_trim_def [of "js_trim s"] front)
  also have "\<dots> = js_trim s" by (simp add: t dropWhile_idem)
  finally show ?thesis .
qed

text \<open>\<open>trim\<close> cuts white space off both ends and nothing else.\<close>

lemma js_trim_split:
  "\<exists>a b. s = a @ js_trim s @ b \<and> (\<forall>c\<in>set a. is_js_ws c) \<and> (\<forall>c\<in>set b. is_js_ws c)"
proof (intro exI conjI)
  let ?t = "dropWhile is_js_ws s"
  have "s = takeWhile is_js_ws s @ ?t" by simp
  also have "?t = js_trim s @ rev (takeWhile is_js_ws (rev ?t))"
    unfolding js_trim_def by (rule rev_dropWhile_split)
  finally show "s = takeWhile is_js_ws s @ js_trim s @ rev (takeWhile is_js_ws (rev ?t))" .
  show "\<forall>c\<in>set (takeWhile is_js_ws s). is_js_ws c"
    by (auto dest: set_takeWhileD)
  show "\<forall>c\<in>set (rev (takeWhile is_js_ws (rev ?t))). is_js_ws c"
    by (auto dest: set_takeWhileD)
qed
end
