(* ===== verification/Crisis.thy ===== *)
theory Crisis
  imports JsString
begin

text \<open>
  The crisis lexicon matcher of \<open>src/saathi-backend/server.js\<close>: the keyword list
  \<open>crisisKeywords\<close>, the classifier \<open>containsCrisisKeywords\<close> (lower-case the
  message, then \<open>some\<close> keyword, lower-cased, is a substring of it) and the static
  payload \<open>getCrisisResources\<close>. The Devanagari keywords and the two emoji of the
  advisory message are written as their UTF-16 code units.
\<close>

definition crisisKeywords :: "jstr list" where
  "crisisKeywords =
     [js ''suicide'', js ''kill myself'', js ''end it all'', js ''hurt myself'', js ''self harm'',
      js ''want to die'', js ''no point living'', js ''better off dead'',
      [0x92E, 0x930, 0x928, 0x93E, 0x20, 0x91A, 0x93E, 0x939, 0x924, 0x93E],
      [0x906, 0x924, 0x94D, 0x92E, 0x939, 0x924, 0x94D, 0x92F, 0x93E],
      [0x91C, 0x940, 0x928, 0x93E, 0x20, 0x928, 0x939, 0x940, 0x20, 0x91A, 0x93E, 0x939, 0x924,
       0x93E],
      [0x92E, 0x94C, 0x924, 0x20, 0x91A, 0x93E, 0x939, 0x93F, 0x90F]]"

definition containsCrisisKeywords :: "jstr \<Rightarrow> bool" where
  "containsCrisisKeywords message =
     (let lowerMessage = to_lower message
      in list_ex (\<lambda>keyword. str_includes lowerMessage (to_lower keyword)) crisisKeywords)"

record helpline =
  name :: jstr
  phone :: jstr
  description :: jstr
  availability :: jstr

text \<open>The payload object: \<open>isEmergency\<close>, \<open>resources\<close> and \<open>message\<close>
  (the last named \<open>alert_message\<close> here).\<close>

record crisis_info =
  isEmergency :: bool
  resources :: "helpline list"
  alert_message :: jstr

definition getCrisisResources :: crisis_info where
  "getCrisisResources =
     \<lparr>isEmergency = True,
      resources =
        [\<lparr>name = js ''Vandrevala Foundation'', phone = js ''+91-9999-666-555'',
          description = js ''24/7 Free Crisis Helpline'', availability = js ''24/7''\<rparr>,
         \<lparr>name = js ''AASRA'', phone = js ''+91-22-2754-6669'',
          description = js ''Suicide Prevention Helpline'', availability = js ''24/7''\<rparr>,
         \<lparr>name = js ''Sneha India'', phone = js ''+91-44-2464-0050'',
          description = js ''Emotional Support Helpline'', availability = js ''24/7''\<rparr>,
         \<lparr>name = js ''iCall'', phone = js ''+91-9152-987-821'',
          description = js ''Psychosocial Helpline'', availability = js ''Mon-Sat 8AM-10PM''\<rparr>],
      alert_message =
        [0xD83D, 0xDEA8] @
        js '' I'm concerned about you. Please reach out to one of these helplines or talk to someone you trust - a family member, friend, teacher, or counselor. You're not alone, and your life matters. ''
        @ [0xD83D, 0xDC99]\<rparr>"

subsection \<open>Lemmas\<close>

lemma crisisKeywords_lower: "\<forall>k\<in>set crisisKeywords. to_lower k = k"
  by (simp add: crisisKeywords_def lower_unit_def)

lemma crisisKeywords_nonempty: "\<forall>k\<in>set crisisKeywords. k \<noteq> []"
  by (simp add: crisisKeywords_def)

lemma containsCrisisKeywords_includes:
  "containsCrisisKeywords m \<longleftrightarrow> (\<exists>k\<in>set crisisKeywords. str_includes (to_lower m) k)"
  using crisisKeywords_lower by (simp add: containsCrisisKeywords_def list_ex_iff)

text \<open>C5: the classifier holds exactly when some keyword occurs, as a contiguous
  substring, in the lower-cased message.\<close>

theorem containsCrisisKeywords_iff:
  "containsCrisisKeywords m \<longleftrightarrow> (\<exists>k\<in>set crisisKeywords. sublist k (to_lower m))"
  by (simp add: containsCrisisKeywords_includes str_includes_iff_sublist)

text \<open>C12: matching ignores case and position: a message that contains, anywhere, any
  spelling of a keyword whose lower case is the keyword is flagged.\<close>

theorem containsCrisisKeywords_anywhere:
  "k \<in> set crisisKeywords \<Longrightarrow> to_lower w = k \<Longrightarrow> containsCrisisKeywords (a @ w @ b)"
  by (auto simp: containsCrisisKeywords_includes str_includes_iff_sublist sublist_def
      intro!: bexI [of _ k])


end
