(* ===== verification/JsMap.thy ===== *)
theory JsMap
  imports Prelude
begin

text \<open>
  The ECMAScript \<open>Map\<close> behind the server's session registry
  (\<open>const sessions = new Map()\<close>). Its \<open>[[MapData]]\<close> is a list of slots in
  insertion order; \<open>delete\<close> empties a slot without moving the others, and
  \<open>set\<close> on a new key appends one. An iterator from \<open>entries()\<close> walks the
  slots by index, skipping empty ones, so deleting the entry being visited is well
  defined: \<open>jmap_sweep_from\<close> is that loop, with the deletion test as a parameter.
  The abstraction to a partial map is \<open>jmap_abs\<close>; under the well-formedness
  invariant (keys of live slots are distinct), every operation refines the matching
  operation on partial maps.
\<close>

type_synonym ('k, 'v) jmap = "('k \<times> 'v) option list"

fun jmap_get :: "('k, 'v) jmap \<Rightarrow> 'k \<Rightarrow> 'v option" where
  "jmap_get [] k = None"
| "jmap_get (None # es) k = jmap_get es k"
| "jmap_get (Some (k', v) # es) k = (if k' = k then Some v else jmap_get es k)"

fun jmap_set :: "('k, 'v) jmap \<Rightarrow> 'k \<Rightarrow> 'v \<Rightarrow> ('k, 'v) jmap" where
  "jmap_set [] k v = [Some (k, v)]"
| "jmap_set (None # es) k v = None # jmap_set es k v"
| "jmap_set (Some (k', v') # es) k v =
     (if k' = k then Some (k', v) # es else Some (k', v') # jmap_set es k v)"

fun jmap_delete :: "('k, 'v) jmap \<Rightarrow> 'k \<Rightarrow> ('k, 'v) jmap" where
  "jmap_delete [] k = []"
| "jmap_delete (None # es) k = None # jmap_delete es k"
| "jmap_delete (Some (k', v) # es) k =
     (if k' = k then None # es else Some (k', v) # jmap_delete es k)"

text \<open>The live entries, in iteration order.\<close>

fun jmap_entries :: "('k, 'v) jmap \<Rightarrow> ('k \<times> 'v) list" where
  "jmap_entries [] = []"
| "jmap_entries (None # es) = jmap_entries es"
| "jmap_entries (Some e # es) = e # jmap_entries es"

definition jmap_wf :: "('k, 'v) jmap \<Rightarrow> bool" where
  "jmap_wf m \<longleftrightarrow> distinct (map fst (jmap_entries m))"

definition jmap_abs :: "('k, 'v) jmap \<Rightarrow> 'k \<rightharpoonup> 'v" where
  "jmap_abs m = map_of (jmap_entries m)"

text \<open>
  \<open>for (const [k, v] of m.entries()) { if (P v) m.delete(k); }\<close>, from slot
  \<open>i\<close> on.
\<close>

function jmap_sweep_from :: "('v \<Rightarrow> bool) \<Rightarrow> nat \<Rightarrow> ('k, 'v) jmap \<Rightarrow> ('k, 'v) jmap" where
  "jmap_sweep_from P i m =
     (if i < length m then
        (case m ! i of
           None \<Rightarrow> jmap_sweep_from P (Suc i) m
         | Some (k, v) \<Rightarrow> jmap_sweep_from P (Suc i) (if P v then jmap_delete m k else m))
      else m)"
  by pat_completeness auto
termination
proof (relation "measure (\<lambda>(P, i, m). length m - i)")
  have len: "length (jmap_delete m k) = length m" for m :: "('k, 'v) jmap" and k
    by (induction m k rule: jmap_delete.induct) auto
  show "wf (measure (\<lambda>(P, i, m). length m - i))" by simp
  show "\<And>P i m x2 x y. i < length m \<Longrightarrow> m ! i = Some x2 \<Longrightarrow> (x, y) = x2 \<Longrightarrow>
     ((P, Suc i, if P y then jmap_delete m x else m), P, i, m)
       \<in> measure (\<lambda>(P, i, m). length m - i)"
    by (simp add: len diff_less_mono2)
  show "\<And>P i m. i < length m \<Longrightarrow> m ! i = None \<Longrightarrow>
     ((P, Suc i, m), P, i, m) \<in> measure (\<lambda>(P, i, m). length m - i)"
    by simp
qed

text \<open>What the loop computes: every live slot whose value satisfies the test emptied,
  the others untouched.\<close>

definition jmap_filter_slots :: "('v \<Rightarrow> bool) \<Rightarrow> ('k, 'v) jmap \<Rightarrow> ('k, 'v) jmap" where
  "jmap_filter_slots P m =
     map (\<lambda>e. case e of None \<Rightarrow> None | Some (k, v) \<Rightarrow> if P v then None else Some (k, v)) m"

text \<open>The values of a map's slots transformed, keys and order kept: how the
  registry of session references reads as a registry of session objects.\<close>

definition jmap_map_vals :: "('v \<Rightarrow> 'w) \<Rightarrow> ('k, 'v) jmap \<Rightarrow> ('k, 'w) jmap" where
  "jmap_map_vals f m = map (map_option (\<lambda>(k, v). (k, f v))) m"

declare jmap_sweep_from.simps [simp del]

subsection \<open>Lemmas\<close>

lemma length_jmap_delete [simp]: "length (jmap_delete m k) = length m"
  by (induction m k rule: jmap_delete.induct) auto

lemma jmap_wf_Nil [simp]: "jmap_wf []"
  and jmap_wf_None [simp]: "jmap_wf (None # es) \<longleftrightarrow> jmap_wf es"
  and jmap_wf_Some [simp]:
    "jmap_wf (Some (k, v) # es) \<longleftrightarrow> k \<notin> fst ` set (jmap_entries es) \<and> jmap_wf es"
  by (simp_all add: jmap_wf_def)

lemma jmap_get_abs: "jmap_get m k = jmap_abs m k"
  by (induction m k rule: jmap_get.induct) (auto simp: jmap_abs_def)

lemma jmap_get_entries: "jmap_get m k = Some v \<Longrightarrow> (k, v) \<in> set (jmap_entries m)"
  by (simp add: jmap_get_abs jmap_abs_def map_of_SomeD)

lemma jmap_abs_set: "jmap_abs (jmap_set m k v) = (jmap_abs m)(k \<mapsto> v)"
  by (induction m k v rule: jmap_set.induct) (auto simp: jmap_abs_def)

lemma jmap_set_set: "jmap_set (jmap_set m k v) k w = jmap_set m k w"
  by (induction m k v rule: jmap_set.induct) auto

lemma keys_jmap_set:
  "fst ` set (jmap_entries (jmap_set m k v)) = insert k (fst ` set (jmap_entries m))"
  by (induction m k v rule: jmap_set.induct) auto

lemma entries_jmap_set_subset:
  "set (jmap_entries (jmap_set m k v)) \<subseteq> insert (k, v) (set (jmap_entries m))"
  by (induction m k v rule: jmap_set.induct) auto

lemma jmap_wf_set: "jmap_wf m \<Longrightarrow> jmap_wf (jmap_set m k v)"
  by (induction m k v rule: jmap_set.induct) (auto simp: keys_jmap_set)

lemma jmap_entries_delete:
  "jmap_wf m \<Longrightarrow> jmap_entries (jmap_delete m k) = filter (\<lambda>e. fst e \<noteq> k) (jmap_entries m)"
proof (induction m k rule: jmap_delete.induct)
  case (3 k' v es k)
  then show ?case by (auto intro!: filter_True[symmetric])
qed simp_all

lemma jmap_wf_delete: "jmap_wf m \<Longrightarrow> jmap_wf (jmap_delete m k)"
  by (simp add: jmap_wf_def jmap_entries_delete distinct_map_filter)

lemma jmap_abs_delete: "jmap_wf m \<Longrightarrow> jmap_abs (jmap_delete m k) = (jmap_abs m)(k := None)"
  by (induction m k rule: jmap_delete.induct)
    (auto simp: jmap_abs_def fun_eq_iff map_of_eq_None_iff)

lemma Some_in_entries: "Some e \<in> set m \<Longrightarrow> e \<in> set (jmap_entries m)"
  by (induction m rule: jmap_entries.induct) auto

lemma jmap_delete_slot:
  "jmap_wf m \<Longrightarrow> i < length m \<Longrightarrow> m ! i = Some (k, v) \<Longrightarrow> jmap_delete m k = m[i := None]"
proof (induction m arbitrary: i)
  case (Cons e es)
  show ?case
  proof (cases i)
    case 0
    with Cons.prems show ?thesis by simp
  next
    case (Suc j)
    with Cons.prems have j: "j < length es" "es ! j = Some (k, v)" by simp_all
    then have "k \<in> fst ` set (jmap_entries es)"
      by (metis Some_in_entries nth_mem fst_conv image_eqI)
    show ?thesis
    proof (cases e)
      case None
      with Cons.prems Suc j Cons.IH show ?thesis by simp
    next
      case (Some p)
      obtain k' v' where p: "p = (k', v')" by fastforce
      with Cons.prems(1) Some \<open>k \<in> fst ` set (jmap_entries es)\<close> have "k' \<noteq> k" by auto
      with Cons.prems Suc j Cons.IH Some p show ?thesis by simp
    qed
  qed
qed simp

lemma jmap_sweep_from_slots:
  "jmap_wf m \<Longrightarrow> jmap_sweep_from P i m = take i m @ jmap_filter_slots P (drop i m)"
proof (induction P i m rule: jmap_sweep_from.induct)
  case (1 P i m)
  show ?case
  proof (cases "i < length m")
    case False
    then show ?thesis by (simp add: jmap_sweep_from.simps jmap_filter_slots_def)
  next
    case True
    then have split: "drop i m = m ! i # drop (Suc i) m" by (simp add: Cons_nth_drop_Suc)
    show ?thesis
    proof (cases "m ! i")
      case None
      with True "1.IH"(1) "1.prems" show ?thesis
        by (simp add: jmap_sweep_from.simps [of P i m] split jmap_filter_slots_def take_Suc_conv_app_nth)
    next
      case (Some e)
      obtain k v where e: "e = (k, v)" by fastforce
      let ?m' = "if P v then jmap_delete m k else m"
      have wf': "jmap_wf ?m'" using "1.prems" by (simp add: jmap_wf_delete)
      have m': "?m' = (if P v then m[i := None] else m)"
        using "1.prems" True Some e by (simp add: jmap_delete_slot)
      have "jmap_sweep_from P (Suc i) ?m' = take (Suc i) ?m' @ jmap_filter_slots P (drop (Suc i) ?m')"
        using "1.IH"(2) [OF True Some e [symmetric] wf'] by simp
      then show ?thesis
        using True Some e
        by (simp add: jmap_sweep_from.simps [of P i m] m' split jmap_filter_slots_def
            take_Suc_conv_app_nth)
    qed
  qed
qed

lemma jmap_entries_filter_slots:
  "jmap_entries (jmap_filter_slots P m) = filter (\<lambda>(k, v). \<not> P v) (jmap_entries m)"
  by (induction m rule: jmap_entries.induct) (auto simp: jmap_filter_slots_def)

text \<open>The sweep loop over the whole map: equal to filtering the live entries, and the
  invariant is kept; on the abstraction it removes exactly the keys whose value passes
  the test.\<close>

lemma map_of_filter_distinct:
  "distinct (map fst es) \<Longrightarrow>
   map_of (filter (\<lambda>(k, v). \<not> P v) es) k =
     (case map_of es k of None \<Rightarrow> None | Some v \<Rightarrow> if P v then None else Some v)"
  by (induction es) (auto simp: map_of_eq_None_iff)

lemma jmap_sweep_entries:
  "jmap_wf m \<Longrightarrow> jmap_entries (jmap_sweep_from P 0 m) = filter (\<lambda>(k, v). \<not> P v) (jmap_entries m)"
  by (simp add: jmap_sweep_from_slots jmap_entries_filter_slots)

lemma jmap_wf_sweep: "jmap_wf m \<Longrightarrow> jmap_wf (jmap_sweep_from P 0 m)"
  by (simp add: jmap_wf_def jmap_sweep_entries distinct_map_filter)

lemma jmap_abs_sweep:
  "jmap_wf m \<Longrightarrow>
   jmap_abs (jmap_sweep_from P 0 m) k = (case jmap_abs m k of None \<Rightarrow> None | Some v \<Rightarrow> if P v then None else Some v)"
  by (simp add: jmap_abs_def jmap_sweep_entries map_of_filter_distinct jmap_wf_def)

subsection \<open>Transforming the values\<close>

lemma jmap_map_vals_simps [simp]:
  "jmap_map_vals f [] = []"
  "jmap_map_vals f (None # es) = None # jmap_map_vals f es"
  "jmap_map_vals f (Some (k, v) # es) = Some (k, f v) # jmap_map_vals f es"
  by (simp_all add: jmap_map_vals_def)

lemma length_jmap_map_vals [simp]: "length (jmap_map_vals f m) = length m"
  by (simp add: jmap_map_vals_def)

lemma jmap_map_vals_set: "jmap_map_vals f (jmap_set m k v) = jmap_set (jmap_map_vals f m) k (f v)"
  by (induction m k v rule: jmap_set.induct) auto

lemma jmap_map_vals_delete: "jmap_map_vals f (jmap_delete m k) = jmap_delete (jmap_map_vals f m) k"
  by (induction m k rule: jmap_delete.induct) auto

lemma jmap_get_map_vals: "jmap_get (jmap_map_vals f m) k = map_option f (jmap_get m k)"
  by (induction m k rule: jmap_get.induct) auto

lemma jmap_entries_map_vals:
  "jmap_entries (jmap_map_vals f m) = map (\<lambda>(k, v). (k, f v)) (jmap_entries m)"
  by (induction m rule: jmap_entries.induct) auto

lemma jmap_map_vals_cong:
  "\<forall>(k, v) \<in> set (jmap_entries m). f v = g v \<Longrightarrow> jmap_map_vals f m = jmap_map_vals g m"
  by (induction m rule: jmap_entries.induct) auto

lemma jmap_map_vals_sweep:
  "jmap_map_vals f (jmap_sweep_from (\<lambda>v. P (f v)) i m) = jmap_sweep_from P i (jmap_map_vals f m)"
proof (induction "\<lambda>v. P (f v)" i m rule: jmap_sweep_from.induct)
  case (1 i m)
  show ?case
  proof (cases "i < length m")
    case True
    then show ?thesis
      using 1 by (subst (1 2) jmap_sweep_from.simps)
        (auto simp: jmap_map_vals_def jmap_map_vals_delete [unfolded jmap_map_vals_def] split: option.split)
  next
    case False
    then show ?thesis by (subst (1 2) jmap_sweep_from.simps) simp
  qed
qed

lemma jmap_map_vals_update:
  "jmap_wf m \<Longrightarrow> jmap_get m k = Some a \<Longrightarrow>
   \<forall>(k', a') \<in> set (jmap_entries m). a' = a \<longrightarrow> k' = k \<Longrightarrow>
   jmap_map_vals (\<lambda>x. if x = a then s else f x) m = jmap_set (jmap_map_vals f m) k s"
proof (induction m)
  case (Cons e es)
  show ?case
  proof (cases e)
    case None
    with Cons show ?thesis by (simp add: jmap_wf_def)
  next
    case (Some p)
    obtain k' a' where p: "p = (k', a')" by fastforce
    have wf: "distinct (map fst (jmap_entries es))" and k'_notin: "k' \<notin> fst ` set (jmap_entries es)"
      using Cons.prems(1) Some p by (simp_all add: jmap_wf_def)
    have inj: "\<forall>(k'', a'') \<in> set (jmap_entries es). a'' = a \<longrightarrow> k'' = k"
      using Cons.prems(3) Some p by simp
    show ?thesis
    proof (cases "k' = k")
      case True
      with Cons.prems(2) Some p have "a' = a" by simp
      have "\<forall>(k'', a'') \<in> set (jmap_entries es). (if a'' = a then s else f a'') = f a''"
      proof (intro ballI, clarify)
        fix k'' a'' assume kin: "(k'', a'') \<in> set (jmap_entries es)"
        show "(if a'' = a then s else f a'') = f a''"
        proof (cases "a'' = a")
          case True
          with inj kin have "k'' = k" by blast
          with kin k'_notin \<open>k' = k\<close> show ?thesis by force
        qed simp
      qed
      then have "jmap_map_vals (\<lambda>x. if x = a then s else f x) es = jmap_map_vals f es"
        by (rule jmap_map_vals_cong)
      with True Some p \<open>a' = a\<close> show ?thesis by simp
    next
      case False
      with Cons.prems(3) Some p have "a' \<noteq> a" by auto
      have "jmap_get es k = Some a" using Cons.prems(2) Some p False by simp
      then have "jmap_map_vals (\<lambda>x. if x = a then s else f x) es = jmap_set (jmap_map_vals f es) k s"
        using wf inj by (intro Cons.IH) (simp_all add: jmap_wf_def)
      with \<open>a' \<noteq> a\<close> Some p False show ?thesis by simp
    qed
  qed
qed simp

end
