(* ===== verification/Base36.thy ===== *)
theory Base36
  imports Prelude
begin

text \<open>
  \<open>Number.prototype.toString(36)\<close> on a non-negative integer, as
  \<open>generateSessionId\<close> applies it to \<open>Date.now()\<close>: the base-36 digits, most
  significant first, written \<open>0-9a-z\<close>. \<open>parse36\<close> reads such a string back;
  it is the decoder of the round-trip theorem, not code of the program.
\<close>

definition digit36 :: "nat \<Rightarrow> code_unit" where
  "digit36 d = (if d < 10 then 0x30 + of_nat d else 0x61 + of_nat (d - 10))"

fun base36 :: "nat \<Rightarrow> jstr" where
  "base36 n = (if n < 36 then [digit36 n] else base36 (n div 36) @ [digit36 (n mod 36)])"

definition digit_val36 :: "code_unit \<Rightarrow> nat option" where
  "digit_val36 c =
     (if 0x30 \<le> c \<and> c \<le> 0x39 then Some (unat c - 48)
      else if 0x61 \<le> c \<and> c \<le> 0x7A then Some (unat c - 87)
      else None)"

fun parse36_acc :: "nat \<Rightarrow> jstr \<Rightarrow> nat option" where
  "parse36_acc acc [] = Some acc"
| "parse36_acc acc (c # cs) =
     (case digit_val36 c of None \<Rightarrow> None | Some d \<Rightarrow> parse36_acc (acc * 36 + d) cs)"

definition parse36 :: "jstr \<Rightarrow> nat option" where
  "parse36 s = (if s = [] then None else parse36_acc 0 s)"

declare base36.simps [simp del]

lemma digit_val36_digit36: "d < 36 \<Longrightarrow> digit_val36 (digit36 d) = Some d"
proof (cases "d < 10")
  case True
  then have u: "unat (0x30 + of_nat d :: code_unit) = 48 + d"
    by (simp add: unat_word_ariths unat_of_nat)
  then show ?thesis using True by (simp add: digit36_def digit_val36_def word_le_nat_alt)
next
  case False
  assume "d < 36"
  then have u: "unat (0x61 + of_nat (d - 10) :: code_unit) = 87 + d"
    using False by (simp add: unat_word_ariths unat_of_nat)
  then show ?thesis using False \<open>d < 36\<close> by (simp add: digit36_def digit_val36_def word_le_nat_alt)
qed

lemma parse36_acc_snoc:
  "parse36_acc acc (xs @ [c]) =
     (case parse36_acc acc xs of None \<Rightarrow> None
      | Some v \<Rightarrow> (case digit_val36 c of None \<Rightarrow> None | Some d \<Rightarrow> Some (v * 36 + d)))"
  by (induction xs arbitrary: acc) (auto split: option.split)

lemma base36_not_Nil [simp]: "base36 n \<noteq> []"
  by (subst base36.simps) simp

lemma parse36_acc_base36: "parse36_acc acc (base36 n) = Some (acc * 36 ^ length (base36 n) + n)"
proof (induction n arbitrary: acc rule: base36.induct)
  case (1 n)
  show ?case
  proof (cases "n < 36")
    case True
    then show ?thesis by (simp add: base36.simps [of n] digit_val36_digit36)
  next
    case False
    then have IH: "parse36_acc acc (base36 (n div 36)) =
                     Some (acc * 36 ^ length (base36 (n div 36)) + n div 36)"
      using "1.IH" by simp
    have "n div 36 * 36 + n mod 36 = n" by simp
    then show ?thesis
      using False IH
      by (simp add: base36.simps [of n] parse36_acc_snoc digit_val36_digit36 algebra_simps)
  qed
qed

text \<open>Round trip: decoding the digits of \<open>n\<close> gives \<open>n\<close> back.\<close>

lemma parse36_base36: "parse36 (base36 n) = Some n"
  by (simp add: parse36_def parse36_acc_base36)

lemma base36_inj: "base36 m = base36 n \<Longrightarrow> m = n"
  by (metis option.inject parse36_base36)

lemma base36_example: "base36 1700000000000 = js ''loyw3v28''"
  by (simp add: base36.simps digit36_def)
end
