(* ===== verification/SessionStore.thy ===== *)
theory SessionStore
  imports Crisis JsMap Base36
begin

text \<open>
  The session registry of \<open>src/saathi-backend/server.js\<close>: the session object
  \<open>{id, messages, createdAt, lastActivity}\<close>, the two shapes of stored message
  (the user's \<open>{role: 'user', content, timestamp}\<close> and the assistant's, which also
  carries \<open>crisis\<close>), \<open>generateSessionId\<close>, the creation of a session by
  \<open>POST /api/session/start\<close> and implicitly by the chat route, the two updates the
  chat route makes to a session, the 20-message window, and the hourly sweep of the
  \<open>setInterval\<close> callback. The registry is the \<open>Map\<close> of \<open>JsMap\<close>, keyed by
  session id.
\<close>

datatype turn =
  UserTurn jstr timestamp
| AssistantTurn jstr timestamp "crisis_info option"

datatype role = RoleUser | RoleAssistant

fun turn_role :: "turn \<Rightarrow> role" where
  "turn_role (UserTurn _ _) = RoleUser"
| "turn_role (AssistantTurn _ _ _) = RoleAssistant"

fun turn_content :: "turn \<Rightarrow> jstr" where
  "turn_content (UserTurn c _) = c"
| "turn_content (AssistantTurn c _ _) = c"

fun turn_crisis :: "turn \<Rightarrow> crisis_info option" where
  "turn_crisis (UserTurn _ _) = None"
| "turn_crisis (AssistantTurn _ _ ci) = ci"

text \<open>The session object; its \<open>id\<close> field is \<open>session_id\<close> here.\<close>

record session =
  session_id :: jstr
  messages :: "turn list"
  createdAt :: timestamp
  lastActivity :: timestamp

type_synonym registry = "(jstr, session) jmap"

text \<open>\<open>'session_' + Math.random().toString(36).substr(2, 9) + Date.now().toString(36)\<close>:
  the random string is an input (the identifier collaborator), the clock is
  \<open>Date.now()\<close>.\<close>

definition generateSessionId :: "jstr \<Rightarrow> nat \<Rightarrow> jstr" where
  "generateSessionId rnd now = js ''session_'' @ js_substr 2 9 rnd @ base36 now"

definition new_session :: "jstr \<Rightarrow> timestamp \<Rightarrow> session" where
  "new_session sid now = \<lparr>session_id = sid, messages = [], createdAt = now, lastActivity = now\<rparr>"

text \<open>\<open>POST /api/session/start\<close>: a fresh id, and \<open>sessions.set\<close> of an empty session
  under it. The id is returned for the response.\<close>

definition start_session :: "jstr \<Rightarrow> timestamp \<Rightarrow> registry \<Rightarrow> registry \<times> jstr" where
  "start_session rnd now m =
     (let sid = generateSessionId rnd (nat now)
      in (jmap_set m sid (new_session sid now), sid))"

text \<open>The chat route's \<open>sessions.get(sessionId)\<close>, creating and registering an empty
  session under the client's id when there is none.\<close>

definition get_or_create :: "jstr \<Rightarrow> timestamp \<Rightarrow> registry \<Rightarrow> registry \<times> session" where
  "get_or_create sid now m =
     (case jmap_get m sid of
        Some s \<Rightarrow> (m, s)
      | None \<Rightarrow> (let s = new_session sid now in (jmap_set m sid s, s)))"

text \<open>\<open>session.lastActivity = new Date()\<close>, then \<open>session.messages.push(userMessage)\<close>.\<close>

definition record_user_turn :: "jstr \<Rightarrow> timestamp \<Rightarrow> session \<Rightarrow> session" where
  "record_user_turn msg now s =
     s\<lparr>lastActivity := now, messages := messages s @ [UserTurn msg now]\<rparr>"

text \<open>\<open>if (session.messages.length > 20) session.messages = session.messages.slice(-20)\<close>.\<close>

definition trim_window :: "turn list \<Rightarrow> turn list" where
  "trim_window ms = (if length ms > 20 then js_slice_from (-20) ms else ms)"

text \<open>\<open>session.messages.push(aiMessage)\<close> followed by the window.\<close>

definition record_assistant_turn ::
  "jstr \<Rightarrow> timestamp \<Rightarrow> crisis_info option \<Rightarrow> session \<Rightarrow> session" where
  "record_assistant_turn text now ci s =
     s\<lparr>messages := trim_window (messages s @ [AssistantTurn text now ci])\<rparr>"

text \<open>The \<open>setInterval\<close> callback: every session whose \<open>lastActivity\<close> lies before
  \<open>now - 1 hour\<close> is deleted while the registry's entries are iterated.\<close>

definition idle :: "timestamp \<Rightarrow> session \<Rightarrow> bool" where
  "idle now s \<longleftrightarrow> lastActivity s < now - 60 * 60 * 1000"

definition sweep :: "timestamp \<Rightarrow> registry \<Rightarrow> registry" where
  "sweep now m = jmap_sweep_from (idle now) 0 m"

text \<open>The registry invariant: live keys are distinct and each session is stored under
  its own id.\<close>

definition registry_inv :: "registry \<Rightarrow> bool" where
  "registry_inv m \<longleftrightarrow> jmap_wf m \<and> (\<forall>(k, s) \<in> set (jmap_entries m). session_id s = k)"

text \<open>A decoder for generated ids whose random part has length \<open>k\<close>; it is the
  inverse used by the round-trip theorem, not code of the program.\<close>

definition parse_session_id :: "nat \<Rightarrow> jstr \<Rightarrow> (jstr \<times> nat) option" where
  "parse_session_id k s =
     (if take 8 s = js ''session_'' then map_option (\<lambda>t. (take k (drop 8 s), t)) (parse36 (drop (8 + k) s))
      else None)"

subsection \<open>Lemmas\<close>

lemma trim_window_drop: "trim_window ms = drop (length ms - 20) ms"
  by (simp add: trim_window_def js_slice_from_neg)

lemma length_trim_window [simp]: "length (trim_window ms) = min 20 (length ms)"
  by (simp add: trim_window_drop)

lemma suffix_trim_window: "suffix (trim_window ms) ms"
  by (simp add: trim_window_drop suffix_drop)

lemma trim_window_short: "length ms \<le> 20 \<Longrightarrow> trim_window ms = ms"
  by (simp add: trim_window_def)

lemma trim_window_append: "trim_window (trim_window xs @ ys) = trim_window (xs @ ys)"
proof -
  have "length xs + length ys - (length xs - 20 + 20) + (length xs - 20) = length xs + length ys - 20"
    by arith
  then show ?thesis by (simp add: trim_window_drop)
qed

lemma session_id_record_user_turn [simp]: "session_id (record_user_turn msg now s) = session_id s"
  and session_id_record_assistant_turn [simp]:
    "session_id (record_assistant_turn text now ci s) = session_id s"
  by (simp_all add: record_user_turn_def record_assistant_turn_def)

lemma get_or_create_found: "jmap_get m sid = Some s \<Longrightarrow> get_or_create sid now m = (m, s)"
  by (simp add: get_or_create_def)

lemma get_or_create_new:
  "jmap_get m sid = None \<Longrightarrow>
   get_or_create sid now m = (jmap_set m sid (new_session sid now), new_session sid now)"
  by (simp add: get_or_create_def Let_def)

lemma get_or_create_stored:
  "get_or_create sid now m = (m', s) \<Longrightarrow> jmap_get m' sid = Some s"
  by (auto simp: get_or_create_def jmap_get_abs jmap_abs_set Let_def split: option.splits)

lemma registry_inv_set:
  "registry_inv m \<Longrightarrow> session_id s = k \<Longrightarrow> registry_inv (jmap_set m k s)"
  unfolding registry_inv_def using entries_jmap_set_subset [of m k s]
  by (auto simp: jmap_wf_set)

lemma registry_inv_sweep: "registry_inv m \<Longrightarrow> registry_inv (sweep now m)"
  by (auto simp: registry_inv_def sweep_def jmap_wf_sweep jmap_sweep_entries)

lemma registry_inv_get_or_create:
  "registry_inv m \<Longrightarrow> get_or_create sid now m = (m', s) \<Longrightarrow> registry_inv m' \<and> session_id s = sid"
proof (cases "jmap_get m sid")
  case None
  moreover assume "registry_inv m" "get_or_create sid now m = (m', s)"
  ultimately show ?thesis
    by (auto simp: get_or_create_new new_session_def intro: registry_inv_set)
next
  case (Some s0)
  moreover assume "registry_inv m" "get_or_create sid now m = (m', s)"
  moreover have "(sid, s0) \<in> set (jmap_entries m)"
    using Some by (rule jmap_get_entries)
  ultimately show ?thesis
    by (auto simp: get_or_create_found registry_inv_def)
qed

lemma registry_inv_start:
  "registry_inv m \<Longrightarrow> registry_inv (fst (start_session rnd now m))"
  by (simp add: start_session_def Let_def registry_inv_set new_session_def)

lemma parse_generateSessionId:
  "parse_session_id (length (js_substr 2 9 rnd)) (generateSessionId rnd t) = Some (js_substr 2 9 rnd, t)"
proof -
  let ?p = "js ''session_''" and ?r = "js_substr 2 9 rnd"
  have len: "length ?p = 8" by (simp del: js_Cons)
  have "take 8 (?p @ ?r @ base36 t) = ?p"
    by (simp add: len del: js_Cons)
  moreover have "drop 8 (?p @ ?r @ base36 t) = ?r @ base36 t"
    by (simp add: len del: js_Cons)
  moreover have "drop (8 + length ?r) (?p @ ?r @ base36 t) = base36 t"
    by (simp add: len drop_append del: js_Cons)
  ultimately show ?thesis
    by (simp add: parse_session_id_def generateSessionId_def parse36_base36 del: js_Cons)
qed

lemma generateSessionId_inj:
  "generateSessionId r1 t1 = generateSessionId r2 t2 \<Longrightarrow>
   length (js_substr 2 9 r1) = length (js_substr 2 9 r2) \<Longrightarrow>
   js_substr 2 9 r1 = js_substr 2 9 r2 \<and> t1 = t2"
  by (metis parse_generateSessionId option.inject prod.inject)

lemma generateSessionId_collision:
  "generateSessionId (js ''0.a'') 408 = generateSessionId (js ''0.ab'') 12"
  by (simp add: generateSessionId_def js_substr_def base36.simps digit36_def)

text \<open>C4: the sweep removes exactly the sessions whose last activity lies more than one
  hour (3600000 ms) before the sweep's clock reading, and keeps every other session
  unchanged under its id.\<close>

theorem sweep_abs:
  "registry_inv m \<Longrightarrow>
   jmap_abs (sweep now m) sid =
     (case jmap_abs m sid of None \<Rightarrow> None
      | Some s \<Rightarrow> if lastActivity s < now - 3600000 then None else Some s)"
  by (simp add: sweep_def registry_inv_def jmap_abs_sweep idle_def split: option.split)


end
