(* ===== verification/Prompt.thy ===== *)
theory Prompt
  imports SessionStore
begin

text \<open>
  The request text that \<open>callGeminiAPI\<close> (\<open>src/saathi-backend/server.js\<close>) sends to
  the generative-language provider: the fixed persona preamble \<open>systemPrompt\<close>, a
  \<open>Conversation History\<close> section with the last five stored messages, each as
  \<open>User: ...\<close> or \<open>Saathi: ...\<close> on its own line, then the new message and the
  cue \<open>Saathi:\<close>. The provider itself is a collaborator: a function from the
  request text to either the thrown error's \<open>message\<close> (\<open>Inl\<close>) or the
  response text (\<open>Inr\<close>). A missing \<open>GEMINI_API_KEY\<close> throws before any
  request is made.
\<close>

type_synonym provider = "jstr \<Rightarrow> jstr + jstr"

definition newline :: jstr where
  "newline = [0xA]"

text \<open>A multi-line template literal, one source line per list element.\<close>

fun join_lines :: "string list \<Rightarrow> jstr" where
  "join_lines [] = []"
| "join_lines [l] = js l"
| "join_lines (l # ls) = js l @ newline @ join_lines ls"

definition systemPrompt :: jstr where
  "systemPrompt = join_lines
      [
       ''You are Saathi, a compassionate AI mental wellness companion specifically designed for Indian youth (16-25 years). '',
       '''',
       ''CORE IDENTITY:'',
       ''- Warm, empathetic, non-judgmental friend'',
       ''- Understands Indian cultural context deeply'',
       ''- Speaks naturally in Hindi-English mix (Hinglish) when appropriate'',
       ''- Focuses on mental wellness support'',
       '''',
       ''CULTURAL AWARENESS:'',
       ''- Indian family dynamics (joint families, parental expectations)'',
       ''- Academic pressure (JEE, NEET, boards, competitive exams)'',
       ''- Career stress and societal expectations'',
       ''- Economic constraints and accessibility issues'',
       ''- Social stigma around mental health'',
       ''- Regional diversity and languages'',
       '''',
       ''RESPONSE STYLE:'',
       ''- Use simple, relatable language'',
       ''- Mix Hindi-English naturally (like: \"Main samajh sakta hun\", \"Yeh tough situation hai\")'',
       ''- Be encouraging but realistic'',
       ''- Never diagnose or give medical advice'',
       ''- Always validate their feelings first'',
       ''- Keep responses under 150 words'',
       ''- Be conversational and friendly'',
       '''',
       ''CRISIS PROTOCOL:'',
       ''If user mentions self-harm, suicide, or severe distress:'',
       ''1. Show immediate empathy and concern'',
       ''2. Provide crisis helpline numbers'',
       ''3. Encourage reaching trusted person'',
       ''4. Offer continued support'',
       '''',
       ''GUIDELINES:'',
       ''- Never provide medical diagnoses'',
       ''- Always encourage professional help for serious issues'',
       ''- Respect cultural sensitivities'',
       ''- Be patient with academic and family pressures'',
       ''- Use appropriate emojis sparingly'']"

definition history_line :: "turn \<Rightarrow> jstr" where
  "history_line msg =
     (if turn_role msg = RoleUser then js ''User'' else js ''Saathi'') @ js '': '' @ turn_content msg @ newline"

definition build_context :: "jstr \<Rightarrow> turn list \<Rightarrow> jstr" where
  "build_context message conversationHistory =
     (let recentHistory = js_slice_from (-5) conversationHistory
      in systemPrompt @ newline @ newline @ js ''Conversation History:'' @ newline
         @ concat (map history_line recentHistory)
         @ newline @ js ''User: '' @ message @ newline @ newline @ js ''Saathi:'')"

definition callGeminiAPI :: "bool \<Rightarrow> provider \<Rightarrow> jstr \<Rightarrow> turn list \<Rightarrow> jstr + jstr" where
  "callGeminiAPI key_set generate message conversationHistory =
     (if \<not> key_set then Inl (js ''GEMINI_API_KEY not found in environment variables'')
      else generate (build_context message conversationHistory))"

subsection \<open>Lemmas\<close>

text \<open>C10: only the last five stored messages reach the provider: the request text for a
  history depends on nothing before its last five entries.\<close>

theorem build_context_last_five:
  "5 \<le> length ys \<Longrightarrow> build_context msg (xs @ ys) = build_context msg ys"
  by (simp add: build_context_def js_slice_from_neg)


end
