(* ===== verification/DateIso.thy ===== *)
theory DateIso
  imports Base36
begin

text \<open>
  \<open>Date.prototype.toISOString\<close>, which the health route calls on \<open>new Date()\<close>:
  the time value (milliseconds since the epoch) split into a day number and the time
  of day, the day number converted to a proleptic Gregorian date, and the fields
  written \<open>YYYY-MM-DDTHH:mm:ss.sssZ\<close> (a six-digit signed year outside 0..9999).
\<close>

fun dec :: "nat \<Rightarrow> jstr" where
  "dec n = (if n < 10 then [0x30 + of_nat n] else dec (n div 10) @ [0x30 + of_nat (n mod 10)])"

definition pad :: "nat \<Rightarrow> int \<Rightarrow> jstr" where
  "pad w n = (let s = dec (nat n) in replicate (w - length s) 0x30 @ s)"

text \<open>Days since 1970-01-01 to (year, month, day).\<close>

definition civil_from_days :: "int \<Rightarrow> int \<times> int \<times> int" where
  "civil_from_days z0 =
     (let z = z0 + 719468;
          era = z div 146097;
          doe = z - era * 146097;
          yoe = (doe - doe div 1460 + doe div 36524 - doe div 146096) div 365;
          doy = doe - (365 * yoe + yoe div 4 - yoe div 100);
          mp = (5 * doy + 2) div 153;
          d = doy - (153 * mp + 2) div 5 + 1;
          m = (if mp < 10 then mp + 3 else mp - 9);
          y = yoe + era * 400
      in (if m \<le> 2 then y + 1 else y, m, d))"

definition year_string :: "int \<Rightarrow> jstr" where
  "year_string y =
     (if 0 \<le> y \<and> y \<le> 9999 then pad 4 y
      else (if y < 0 then js ''-'' else js ''+'') @ pad 6 \<bar>y\<bar>)"

definition to_iso_string :: "timestamp \<Rightarrow> jstr" where
  "to_iso_string t =
     (let days = t div 86400000; ms_of_day = t mod 86400000;
          (y, mo, d) = civil_from_days days
      in year_string y @ js ''-'' @ pad 2 mo @ js ''-'' @ pad 2 d @ js ''T''
         @ pad 2 (ms_of_day div 3600000) @ js '':'' @ pad 2 (ms_of_day mod 3600000 div 60000)
         @ js '':'' @ pad 2 (ms_of_day mod 60000 div 1000) @ js ''.'' @ pad 3 (ms_of_day mod 1000)
         @ js ''Z'')"

declare dec.simps [simp del]

text \<open>Known instants: the epoch, a recent date, a leap day with milliseconds, and the
  last millisecond before the epoch.\<close>

lemma to_iso_string_examples:
  "to_iso_string 0 = js ''1970-01-01T00:00:00.000Z''"
  "to_iso_string 1700000000000 = js ''2023-11-14T22:13:20.000Z''"
  "to_iso_string 951782400123 = js ''2000-02-29T00:00:00.123Z''"
  "to_iso_string (-1) = js ''1969-12-31T23:59:59.999Z''"
  by code_simp+

end
