(* ===== verification/Http.thy ===== *)
theory Http
  imports Prompt DateIso
begin

text \<open>
  The values that cross the HTTP boundary of \<open>src/saathi-backend/server.js\<close>. A
  request body is a parsed JSON value and a response body is the JavaScript value
  handed to \<open>res.json\<close>; both are \<open>jsval\<close>. \<open>JUndefined\<close> is a property
  that is absent (\<open>res.json\<close> omits it); \<open>JDate\<close> is a \<open>Date\<close> object, which
  \<open>res.json\<close> writes with \<open>toISOString\<close>. Numbers are the integers the
  program produces and reads. The rest of the theory builds the fixed response bodies
  of the routes and the JSON form of stored messages and crisis payloads.
\<close>

datatype jsval =
  JUndefined
| JNull
| JBool bool
| JNum int
| JStr jstr
| JArr "jsval list"
| JObj "(jstr \<times> jsval) list"
| JDate timestamp

text \<open>JavaScript truthiness, as \<open>!message\<close> tests it.\<close>

fun js_truthy :: "jsval \<Rightarrow> bool" where
  "js_truthy JUndefined = False"
| "js_truthy JNull = False"
| "js_truthy (JBool b) = b"
| "js_truthy (JNum n) = (n \<noteq> 0)"
| "js_truthy (JStr s) = (s \<noteq> [])"
| "js_truthy (JArr _) = True"
| "js_truthy (JObj _) = True"
| "js_truthy (JDate _) = True"

text \<open>Property lookup on a parsed body, \<open>req.body.message\<close>: absent is
  \<open>undefined\<close>.\<close>

fun js_prop :: "jsval \<Rightarrow> jstr \<Rightarrow> jsval" where
  "js_prop (JObj ps) k = (case map_of ps k of Some v \<Rightarrow> v | None \<Rightarrow> JUndefined)"
| "js_prop _ k = JUndefined"

record http_response =
  status :: nat
  body :: jsval

record config =
  api_key_set :: bool
  development :: bool

definition helpline_json :: "helpline \<Rightarrow> jsval" where
  "helpline_json h =
     JObj [(js ''name'', JStr (name h)), (js ''phone'', JStr (phone h)),
           (js ''description'', JStr (description h)), (js ''availability'', JStr (availability h))]"

definition crisis_json :: "crisis_info \<Rightarrow> jsval" where
  "crisis_json c =
     JObj [(js ''isEmergency'', JBool (isEmergency c)),
           (js ''resources'', JArr (map helpline_json (resources c))),
           (js ''message'', JStr (alert_message c))]"

definition crisis_or_null :: "crisis_info option \<Rightarrow> jsval" where
  "crisis_or_null ci = (case ci of None \<Rightarrow> JNull | Some c \<Rightarrow> crisis_json c)"

fun turn_json :: "turn \<Rightarrow> jsval" where
  "turn_json (UserTurn c t) =
     JObj [(js ''role'', JStr (js ''user'')), (js ''content'', JStr c), (js ''timestamp'', JDate t)]"
| "turn_json (AssistantTurn c t ci) =
     JObj [(js ''role'', JStr (js ''assistant'')), (js ''content'', JStr c),
           (js ''timestamp'', JDate t), (js ''crisis'', crisis_or_null ci)]"

text \<open>\<open>res.status(400).json({success: false, error: 'Message cannot be empty'})\<close>.\<close>

definition resp_empty_message :: http_response where
  "resp_empty_message =
     \<lparr>status = 400,
      body = JObj [(js ''success'', JBool False), (js ''error'', JStr (js ''Message cannot be empty''))]\<rparr>"

text \<open>The chat route's \<open>catch\<close>: status 500, a fixed apology, and the error's message
  only when \<open>NODE_ENV\<close> is \<open>development\<close>.\<close>

definition resp_chat_error :: "config \<Rightarrow> jstr \<Rightarrow> http_response" where
  "resp_chat_error cfg err =
     \<lparr>status = 500,
      body = JObj [(js ''success'', JBool False),
                   (js ''error'', JStr (js ''I'm having trouble connecting right now. Please try again in a moment.'')),
                   (js ''details'', if development cfg then JStr err else JUndefined)]\<rparr>"

definition resp_chat_ok :: "jstr \<Rightarrow> crisis_info option \<Rightarrow> jstr \<Rightarrow> nat \<Rightarrow> http_response" where
  "resp_chat_ok aiResponse ci sid count =
     \<lparr>status = 200,
      body = JObj [(js ''success'', JBool True), (js ''message'', JStr aiResponse),
                   (js ''crisis'', crisis_or_null ci), (js ''sessionId'', JStr sid),
                   (js ''messageCount'', JNum (int count))]\<rparr>"

end
