(* ===== verification/Routes.thy ===== *)
theory Routes
  imports Http
begin

text \<open>
  The route handlers of \<open>src/saathi-backend/server.js\<close>, each a function from the
  registry to the new registry and the response. The collaborators a request uses are
  the fields of \<open>collab\<close>: the clock before the provider call (every
  \<open>new Date()\<close> and \<open>Date.now()\<close> of the synchronous part of the handler reads it),
  the clock after the provider call, the \<open>Math.random().toString(36)\<close> string, and
  the provider. The chat handler runs its provider call as one step here; the
  interleavings that its \<open>await\<close> allows are the subject of \<open>Interleaving\<close>.
\<close>

record collab =
  req_time :: timestamp
  resume_time :: timestamp
  req_random :: jstr
  req_provider :: provider

text \<open>The guard \<open>if (!message || message.trim().length === 0)\<close>: a falsy message or
  one of white space only is rejected; a truthy message that is not a string has no
  \<open>trim\<close> method, and the call throws a \<open>TypeError\<close> inside the \<open>try\<close>.\<close>

datatype message_check = EmptyMessage | NotAString | ValidMessage jstr

fun check_message :: "jsval \<Rightarrow> message_check" where
  "check_message m =
     (if \<not> js_truthy m then EmptyMessage
      else (case m of
              JStr s \<Rightarrow> if js_trim s = [] then EmptyMessage else ValidMessage s
            | _ \<Rightarrow> NotAString))"

definition type_error_trim :: jstr where
  "type_error_trim = js ''message.trim is not a function''"

text \<open>\<open>POST /api/chat/:sessionId\<close>.\<close>

definition chat_handler ::
  "config \<Rightarrow> collab \<Rightarrow> jstr \<Rightarrow> jsval \<Rightarrow> registry \<Rightarrow> registry \<times> http_response" where
  "chat_handler cfg c sessionId message m =
     (case check_message message of
        EmptyMessage \<Rightarrow> (m, resp_empty_message)
      | NotAString \<Rightarrow> (m, resp_chat_error cfg type_error_trim)
      | ValidMessage msg \<Rightarrow>
          (let (m1, session) = get_or_create sessionId (req_time c) m;
               session1 = record_user_turn msg (req_time c) session;
               m2 = jmap_set m1 sessionId session1;
               isCrisis = containsCrisisKeywords msg;
               crisisInfo = (if isCrisis then Some getCrisisResources else None)
           in (case callGeminiAPI (api_key_set cfg) (req_provider c) msg (messages session1) of
                 Inl err \<Rightarrow> (m2, resp_chat_error cfg err)
               | Inr aiResponse \<Rightarrow>
                   (let session2 = record_assistant_turn aiResponse (resume_time c) crisisInfo session1
                    in (jmap_set m2 sessionId session2,
                        resp_chat_ok aiResponse crisisInfo sessionId (length (messages session2)))))))"

text \<open>\<open>POST /api/session/start\<close>.\<close>

definition start_handler :: "collab \<Rightarrow> registry \<Rightarrow> registry \<times> http_response" where
  "start_handler c m =
     (let (m', sessionId) = start_session (req_random c) (req_time c) m
      in (m', \<lparr>status = 200,
               body = JObj [(js ''success'', JBool True), (js ''sessionId'', JStr sessionId),
                            (js ''message'', JStr (js ''Session started successfully''))]\<rparr>))"

text \<open>\<open>GET /api/session/:sessionId/history\<close>: a read; the registry is not changed.\<close>

definition history_handler :: "jstr \<Rightarrow> registry \<Rightarrow> http_response" where
  "history_handler sessionId m =
     (case jmap_get m sessionId of
        None \<Rightarrow> \<lparr>status = 404,
                  body = JObj [(js ''success'', JBool False), (js ''error'', JStr (js ''Session not found''))]\<rparr>
      | Some session \<Rightarrow>
          \<lparr>status = 200,
           body = JObj [(js ''success'', JBool True),
                        (js ''messages'', JArr (map turn_json (messages session))),
                        (js ''sessionInfo'',
                         JObj [(js ''id'', JStr (session_id session)),
                               (js ''createdAt'', JDate (createdAt session)),
                               (js ''lastActivity'', JDate (lastActivity session)),
                               (js ''messageCount'', JNum (int (length (messages session))))])]\<rparr>)"

text \<open>\<open>GET /api/resources\<close>: static data, with the crisis helplines of
  \<open>getCrisisResources\<close>.\<close>

definition resources_handler :: http_response where
  "resources_handler =
     \<lparr>status = 200,
      body = JObj [(js ''success'', JBool True),
        (js ''resources'', JObj [
          (js ''crisis'', JArr (map helpline_json (resources getCrisisResources))),
          (js ''selfHelp'', JArr [
          JObj [(js ''type'', JStr (js ''breathing'')), (js ''name'', JStr (js ''4-7-8 Breathing'')),
                (js ''description'', JStr (js ''Inhale 4 seconds, hold 7, exhale 8'')),
                (js ''instructions'', JStr (js ''Sit comfortably, breathe in through nose for 4 counts, hold breath for 7 counts, exhale through mouth for 8 counts. Repeat 3-4 times.''))],
          JObj [(js ''type'', JStr (js ''grounding'')), (js ''name'', JStr (js ''5-4-3-2-1 Technique'')),
                (js ''description'', JStr (js ''Grounding exercise for anxiety'')),
                (js ''instructions'', JStr (js ''Name 5 things you can see, 4 you can touch, 3 you can hear, 2 you can smell, 1 you can taste.''))],
          JObj [(js ''type'', JStr (js ''meditation'')), (js ''name'', JStr (js ''Quick Meditation'')),
                (js ''description'', JStr (js ''5-minute mindfulness exercise'')),
                (js ''instructions'', JStr (js ''Sit quietly, focus on your breath. When thoughts come, acknowledge them and return focus to breathing.''))]]),
          (js ''educational'', JArr [
          JObj [(js ''title'', JStr (js ''Understanding Exam Stress'')),
                (js ''description'', JStr (js ''Tips for managing academic pressure'')),
                (js ''content'', JStr (js ''Academic stress is normal. Break study into small chunks, take regular breaks, and remember that one exam doesn't define your worth.''))],
          JObj [(js ''title'', JStr (js ''Dealing with Family Expectations'')),
                (js ''description'', JStr (js ''Navigating parental pressure'')),
                (js ''content'', JStr (js ''Communicate openly with family about your feelings. Set boundaries while respecting their concerns. Remember, your mental health matters.''))]])])]\<rparr>"

text \<open>\<open>GET /api/health\<close>.\<close>

definition health_handler :: "timestamp \<Rightarrow> http_response" where
  "health_handler now =
     \<lparr>status = 200,
      body = JObj [(js ''status'', JStr (js ''healthy'')), (js ''timestamp'', JStr (to_iso_string now)),
                   (js ''version'', JStr (js ''1.0.0''))]\<rparr>"

text \<open>The catch-all \<open>app.use('*')\<close> and the error middleware.\<close>

definition not_found_handler :: http_response where
  "not_found_handler =
     \<lparr>status = 404, body = JObj [(js ''success'', JBool False), (js ''error'', JStr (js ''Route not found''))]\<rparr>"

definition error_middleware :: "config \<Rightarrow> jstr \<Rightarrow> http_response" where
  "error_middleware cfg err =
     \<lparr>status = 500,
      body = JObj [(js ''success'', JBool False), (js ''error'', JStr (js ''Internal server error'')),
                   (js ''details'', if development cfg then JStr err else JUndefined)]\<rparr>"

subsection \<open>Specification-side helpers\<close>

text \<open>The session a request finds or creates, the crisis payload the code attaches to a
  message, and the session after one complete exchange: the vocabulary of the
  functional theorems below, not code of the program.\<close>

definition prior_session :: "jstr \<Rightarrow> timestamp \<Rightarrow> registry \<Rightarrow> session" where
  "prior_session sid now m = (case jmap_get m sid of Some s \<Rightarrow> s | None \<Rightarrow> new_session sid now)"

definition crisis_of :: "jstr \<Rightarrow> crisis_info option" where
  "crisis_of msg = (if containsCrisisKeywords msg then Some getCrisisResources else None)"

definition after_exchange ::
  "jstr \<Rightarrow> jstr \<Rightarrow> timestamp \<Rightarrow> timestamp \<Rightarrow> session \<Rightarrow> session" where
  "after_exchange msg r t t' s =
     s\<lparr>messages := trim_window (messages s @ [UserTurn msg t, AssistantTurn r t' (crisis_of msg)]),
       lastActivity := t\<rparr>"

subsection \<open>The chat route\<close>

lemma get_or_create_prior:
  "get_or_create sid now m = (m', s) \<Longrightarrow> s = prior_session sid now m \<and> jmap_abs m' = (jmap_abs m)(sid \<mapsto> s)"
  by (auto simp: get_or_create_def prior_session_def jmap_get_abs jmap_abs_set Let_def
      split: option.splits)

lemma check_message_JStr:
  "check_message (JStr s) = (if js_trim s = [] then EmptyMessage else ValidMessage s)"
  by (auto simp: js_trim_Nil_iff)

lemma chat_handler_valid:
  assumes valid: "check_message v = ValidMessage msg"
  shows "chat_handler cfg c sid v m =
    (let m1 = fst (get_or_create sid (req_time c) m);
         s1 = record_user_turn msg (req_time c) (prior_session sid (req_time c) m)
     in case callGeminiAPI (api_key_set cfg) (req_provider c) msg (messages s1) of
          Inl err \<Rightarrow> (jmap_set m1 sid s1, resp_chat_error cfg err)
        | Inr r \<Rightarrow>
            (let s2 = record_assistant_turn r (resume_time c) (crisis_of msg) s1
             in (jmap_set m1 sid s2, resp_chat_ok r (crisis_of msg) sid (length (messages s2)))))"
proof -
  obtain m1 s0 where goc: "get_or_create sid (req_time c) m = (m1, s0)" by fastforce
  then have s0: "s0 = prior_session sid (req_time c) m"
    by (auto dest: get_or_create_prior)
  show ?thesis
    unfolding chat_handler_def valid
    by (simp add: goc s0 [symmetric] Let_def crisis_of_def jmap_set_set split: sum.split)
qed

text \<open>C1: a chat request whose message is a string of white space only is answered
  with status 400 and leaves the registry as it was: no session is created and no
  message is recorded.\<close>

theorem chat_empty_rejected:
  "\<forall>u\<in>set s. is_js_ws u \<Longrightarrow> chat_handler cfg c sid (JStr s) m = (m, resp_empty_message)"
  by (simp add: chat_handler_def check_message_JStr js_trim_Nil_iff)

lemma chat_falsy_rejected:
  "\<not> js_truthy v \<Longrightarrow> chat_handler cfg c sid v m = (m, resp_empty_message)"
  by (simp add: chat_handler_def)

text \<open>C2: a valid message on which the provider answers: the session (found, or created
  under the client's id) gets the user message and the assistant reply with the crisis
  payload of the message's classification, the window applied after both; its last
  activity is the request time; the response carries the reply, the same crisis payload
  and the resulting message count.\<close>

theorem chat_success:
  assumes valid: "check_message v = ValidMessage msg"
    and key: "api_key_set cfg"
    and gen: "req_provider c (build_context msg (messages (prior_session sid (req_time c) m) @ [UserTurn msg (req_time c)])) = Inr r"
    and run: "chat_handler cfg c sid v m = (m', resp)"
  shows "jmap_abs m' = (jmap_abs m)(sid \<mapsto> after_exchange msg r (req_time c) (resume_time c) (prior_session sid (req_time c) m))
         \<and> resp = resp_chat_ok r (crisis_of msg) sid (min 20 (length (messages (prior_session sid (req_time c) m)) + 2))"
proof -
  obtain m1 s0 where goc: "get_or_create sid (req_time c) m = (m1, s0)" by fastforce
  then have s0: "s0 = prior_session sid (req_time c) m" and m1: "jmap_abs m1 = (jmap_abs m)(sid \<mapsto> s0)"
    by (auto dest: get_or_create_prior)
  from run show ?thesis
    unfolding chat_handler_def valid
    by (auto simp add: goc callGeminiAPI_def key gen [folded s0]
        record_user_turn_def record_assistant_turn_def jmap_abs_set m1 after_exchange_def crisis_of_def
        Let_def s0 [symmetric])
qed

lemma chat_not_a_string:
  "js_truthy v \<Longrightarrow> (\<forall>s. v \<noteq> JStr s) \<Longrightarrow> chat_handler cfg c sid v m = (m, resp_chat_error cfg type_error_trim)"
  by (cases v) (simp_all add: chat_handler_def)

text \<open>C3: when the provider call fails (or the API key is missing), the response is the
  500 apology with the error's message as details in development mode only; the user
  message stays recorded, with the activity time updated, and no assistant message is
  recorded.\<close>

theorem chat_provider_failure:
  assumes valid: "check_message v = ValidMessage msg"
    and fail: "callGeminiAPI (api_key_set cfg) (req_provider c) msg
                 (messages (prior_session sid (req_time c) m) @ [UserTurn msg (req_time c)]) = Inl e"
    and run: "chat_handler cfg c sid v m = (m', resp)"
  shows "jmap_abs m' = (jmap_abs m)(sid \<mapsto> record_user_turn msg (req_time c) (prior_session sid (req_time c) m))
         \<and> resp = resp_chat_error cfg e"
proof -
  obtain m1 s0 where goc: "get_or_create sid (req_time c) m = (m1, s0)" by fastforce
  then have s0: "s0 = prior_session sid (req_time c) m" and m1: "jmap_abs m1 = (jmap_abs m)(sid \<mapsto> s0)"
    by (auto dest: get_or_create_prior)
  have fail': "callGeminiAPI (api_key_set cfg) (req_provider c) msg (messages (record_user_turn msg (req_time c) s0)) = Inl e"
    using fail by (simp add: record_user_turn_def s0)
  from run show ?thesis
    unfolding chat_handler_def valid
    by (auto simp add: goc fail' jmap_abs_set m1 s0 [symmetric] Let_def)
qed

lemma registry_inv_chat:
  "registry_inv m \<Longrightarrow> registry_inv (fst (chat_handler cfg c sid v m))"
proof -
  assume inv: "registry_inv m"
  obtain m1 s0 where goc: "get_or_create sid (req_time c) m = (m1, s0)" by fastforce
  with inv have inv1: "registry_inv m1" and sid: "session_id s0 = sid"
    by (auto dest: registry_inv_get_or_create)
  show ?thesis
  proof (cases "check_message v")
    case (ValidMessage msg)
    then show ?thesis
      unfolding chat_handler_def
      by (auto simp: goc Let_def sid inv1 registry_inv_set split: sum.split)
  qed (simp_all add: chat_handler_def inv)
qed

end
