(* ===== verification/Server.thy ===== *)
theory Server
  imports Routes
begin

text \<open>
  The server process of \<open>src/saathi-backend/server.js\<close> as a state machine. Its
  state is the session registry; an event is either a request, already routed, with
  the collaborators' answers for it, or a tick of the hourly \<open>setInterval\<close> timer.
  \<open>route\<close> is Express's dispatch on the method and the path segments (literal
  segments compared as Express does, case-insensitively; the segments are given
  decoded and without a trailing empty segment); a body that \<open>express.json\<close>
  cannot parse goes to the error middleware. \<open>reachable\<close> is the set of registries
  of all runs from the empty one. The invariants: the registry is well formed, and in
  every stored conversation each assistant message directly follows a user message
  and carries exactly the crisis payload of that message's classification.
\<close>

datatype http_method = GET | POST | OtherMethod

datatype request =
  HealthReq
| StartReq
| ChatReq jstr jsval
| HistoryReq jstr
| ResourcesReq
| NotFoundReq
| MalformedBody jstr

definition seg_is :: "jstr \<Rightarrow> string \<Rightarrow> bool" where
  "seg_is seg lit \<longleftrightarrow> to_lower seg = js lit"

definition route :: "http_method \<Rightarrow> jstr list \<Rightarrow> jsval \<Rightarrow> request" where
  "route meth path b =
     (case (meth, path) of
        (GET, [a, x]) \<Rightarrow>
          if seg_is a ''api'' \<and> seg_is x ''health'' then HealthReq
          else if seg_is a ''api'' \<and> seg_is x ''resources'' then ResourcesReq
          else NotFoundReq
      | (POST, [a, x, y]) \<Rightarrow>
          if seg_is a ''api'' \<and> seg_is x ''session'' \<and> seg_is y ''start'' then StartReq
          else if seg_is a ''api'' \<and> seg_is x ''chat'' \<and> y \<noteq> [] then ChatReq y (js_prop b (js ''message''))
          else NotFoundReq
      | (GET, [a, x, y, z]) \<Rightarrow>
          if seg_is a ''api'' \<and> seg_is x ''session'' \<and> y \<noteq> [] \<and> seg_is z ''history'' then HistoryReq y
          else NotFoundReq
      | _ \<Rightarrow> NotFoundReq)"

definition handle_request :: "config \<Rightarrow> collab \<Rightarrow> request \<Rightarrow> registry \<Rightarrow> registry \<times> http_response" where
  "handle_request cfg c r m =
     (case r of
        HealthReq \<Rightarrow> (m, health_handler (req_time c))
      | StartReq \<Rightarrow> start_handler c m
      | ChatReq sid v \<Rightarrow> chat_handler cfg c sid v m
      | HistoryReq sid \<Rightarrow> (m, history_handler sid m)
      | ResourcesReq \<Rightarrow> (m, resources_handler)
      | NotFoundReq \<Rightarrow> (m, not_found_handler)
      | MalformedBody err \<Rightarrow> (m, error_middleware cfg err))"

datatype event = Request request collab | SweepTick timestamp

fun server_step :: "config \<Rightarrow> registry \<Rightarrow> event \<Rightarrow> registry \<times> http_response option" where
  "server_step cfg m (Request r c) = (let (m', resp) = handle_request cfg c r m in (m', Some resp))"
| "server_step cfg m (SweepTick now) = (sweep now m, None)"

fun server_run :: "config \<Rightarrow> registry \<Rightarrow> event list \<Rightarrow> registry" where
  "server_run cfg m [] = m"
| "server_run cfg m (e # es) = server_run cfg (fst (server_step cfg m e)) es"

inductive reachable :: "config \<Rightarrow> registry \<Rightarrow> bool" for cfg where
  init: "reachable cfg []"
| step: "reachable cfg m \<Longrightarrow> reachable cfg (fst (server_step cfg m e))"

text \<open>Adjacent stored messages agree: an assistant message follows a user message and
  carries that message's crisis payload.\<close>

definition pair_ok :: "turn \<Rightarrow> turn \<Rightarrow> bool" where
  "pair_ok t1 t2 =
     (case t2 of
        UserTurn _ _ \<Rightarrow> True
      | AssistantTurn _ _ ci \<Rightarrow> (case t1 of UserTurn u _ \<Rightarrow> ci = crisis_of u | AssistantTurn _ _ _ \<Rightarrow> False))"

fun paired :: "turn list \<Rightarrow> bool" where
  "paired (t1 # t2 # rest) = (pair_ok t1 t2 \<and> paired (t2 # rest))"
| "paired _ = True"

definition sessions_paired :: "registry \<Rightarrow> bool" where
  "sessions_paired m \<longleftrightarrow> (\<forall>(k, s) \<in> set (jmap_entries m). paired (messages s))"

text \<open>A run of complete exchanges on one session, each the two updates the chat route
  makes when the provider answers.\<close>

definition exchange_turns :: "jstr \<times> jstr \<times> timestamp \<times> timestamp \<Rightarrow> turn list" where
  "exchange_turns e = (case e of (u, r, t, t') \<Rightarrow> [UserTurn u t, AssistantTurn r t' (crisis_of u)])"

fun exchanges :: "session \<Rightarrow> (jstr \<times> jstr \<times> timestamp \<times> timestamp) list \<Rightarrow> session" where
  "exchanges s [] = s"
| "exchanges s ((u, r, t, t') # es) =
     exchanges (record_assistant_turn r t' (crisis_of u) (record_user_turn u t s)) es"

subsection \<open>Lemmas\<close>

lemma paired_tl: "paired (t # ts) \<Longrightarrow> paired ts"
  by (cases ts) auto

lemma paired_drop: "paired ts \<Longrightarrow> paired (drop n ts)"
proof (induction n arbitrary: ts)
  case (Suc n)
  then show ?case by (cases ts) (auto dest: paired_tl)
qed simp

lemma paired_snoc: "paired (ts @ [t]) \<longleftrightarrow> paired ts \<and> (ts \<noteq> [] \<longrightarrow> pair_ok (last ts) t)"
  by (induction ts rule: paired.induct) (auto simp: neq_Nil_conv)

lemma paired_trim_window: "paired ts \<Longrightarrow> paired (trim_window ts)"
  by (simp add: trim_window_drop paired_drop)

lemma paired_user_turn: "paired (messages s) \<Longrightarrow> paired (messages (record_user_turn msg t s))"
  by (simp add: record_user_turn_def paired_snoc pair_ok_def)

lemma paired_exchange:
  "paired (messages s) \<Longrightarrow>
   paired (messages (record_assistant_turn r t' (crisis_of msg) (record_user_turn msg t s)))"
proof -
  assume p: "paired (messages s)"
  let ?u = "messages s @ [UserTurn msg t]"
  have "paired ?u" using p by (simp add: paired_snoc pair_ok_def)
  then have "paired (?u @ [AssistantTurn r t' (crisis_of msg)])"
    by (simp only: paired_snoc) (simp add: pair_ok_def)
  then show ?thesis
    by (simp add: record_user_turn_def record_assistant_turn_def paired_trim_window)
qed

lemma sessions_paired_set:
  "sessions_paired m \<Longrightarrow> paired (messages s) \<Longrightarrow> sessions_paired (jmap_set m k s)"
  using entries_jmap_set_subset [of m k s] by (auto simp: sessions_paired_def)

lemma sessions_paired_sweep: "registry_inv m \<Longrightarrow> sessions_paired m \<Longrightarrow> sessions_paired (sweep now m)"
  by (auto simp: sessions_paired_def sweep_def registry_inv_def jmap_sweep_entries)

lemma paired_prior_session:
  "sessions_paired m \<Longrightarrow> paired (messages (prior_session sid t m))"
  by (auto simp: prior_session_def new_session_def sessions_paired_def jmap_get_abs jmap_abs_def
      dest: map_of_SomeD split: option.split)

lemma sessions_paired_get_or_create:
  "sessions_paired m \<Longrightarrow> sessions_paired (fst (get_or_create sid t m))"
  by (auto simp: get_or_create_def new_session_def Let_def intro: sessions_paired_set split: option.split)

lemma sessions_paired_chat:
  "sessions_paired m \<Longrightarrow> sessions_paired (fst (chat_handler cfg c sid v m))"
proof (cases "check_message v")
  case (ValidMessage msg)
  assume sp: "sessions_paired m"
  let ?s0 = "prior_session sid (req_time c) m"
  have p0: "paired (messages ?s0)" using sp by (rule paired_prior_session)
  have m1: "sessions_paired (fst (get_or_create sid (req_time c) m))"
    using sp by (rule sessions_paired_get_or_create)
  show ?thesis
    using ValidMessage m1 paired_user_turn [OF p0] paired_exchange [OF p0]
    by (auto simp: chat_handler_valid Let_def intro: sessions_paired_set split: sum.split)
qed (simp_all add: chat_handler_def)

lemma fst_start_handler: "fst (start_handler c m) = fst (start_session (req_random c) (req_time c) m)"
  by (simp add: start_handler_def split_def Let_def)

lemma registry_inv_start_handler: "registry_inv m \<Longrightarrow> registry_inv (fst (start_handler c m))"
  by (simp add: fst_start_handler registry_inv_start)

lemma sessions_paired_start_handler:
  "sessions_paired m \<Longrightarrow> sessions_paired (fst (start_handler c m))"
  by (simp add: fst_start_handler start_session_def Let_def new_session_def sessions_paired_set)

lemma step_invariants:
  "registry_inv m \<and> sessions_paired m \<Longrightarrow>
   registry_inv (fst (server_step cfg m e)) \<and> sessions_paired (fst (server_step cfg m e))"
proof (cases e)
  case (Request r c)
  assume inv: "registry_inv m \<and> sessions_paired m"
  then show ?thesis
    using Request
    by (cases r) (simp_all add: handle_request_def split_def Let_def registry_inv_chat sessions_paired_chat
        registry_inv_start_handler sessions_paired_start_handler)
next
  case (SweepTick now)
  assume "registry_inv m \<and> sessions_paired m"
  with SweepTick show ?thesis by (simp add: registry_inv_sweep sessions_paired_sweep)
qed

lemma reachable_invariants: "reachable cfg m \<Longrightarrow> registry_inv m \<and> sessions_paired m"
proof (induction rule: reachable.induct)
  case init
  show ?case by (simp add: registry_inv_def sessions_paired_def jmap_wf_def)
next
  case (step m e)
  from step.IH show ?case by (rule step_invariants)
qed


text \<open>C6: in every registry reachable from the empty one by requests and sweep ticks,
  the live keys are distinct and every session is stored under its own id.\<close>

theorem reachable_registry_inv: "reachable cfg m \<Longrightarrow> registry_inv m"
  using reachable_invariants by blast


text \<open>C8: the history route never changes the registry, and it answers 404 exactly when
  no session is stored under the id.\<close>

theorem history_request:
  "handle_request cfg c (HistoryReq sid) m = (m, history_handler sid m)
   \<and> (status (history_handler sid m) = 404 \<longleftrightarrow> jmap_get m sid = None)"
  by (simp add: handle_request_def history_handler_def split: option.split)

lemma messages_exchanges:
  "messages (exchanges s es) =
     (if es = [] then messages s else trim_window (messages s @ concat (map exchange_turns es)))"
proof (induction s es rule: exchanges.induct)
  case (2 s u r t t' es)
  let ?s' = "record_assistant_turn r t' (crisis_of u) (record_user_turn u t s)"
  have ms': "messages ?s' = trim_window (messages s @ exchange_turns (u, r, t, t'))"
    by (simp add: record_user_turn_def record_assistant_turn_def exchange_turns_def)
  have "messages (exchanges s ((u, r, t, t') # es)) = messages (exchanges ?s' es)" by simp
  also have "\<dots> = (if es = [] then messages ?s' else trim_window (messages ?s' @ concat (map exchange_turns es)))"
    by (rule "2.IH")
  also have "\<dots> = trim_window (messages s @ concat (map exchange_turns ((u, r, t, t') # es)))"
    by (simp add: ms' trim_window_append)
  finally show ?case by simp
qed simp

text \<open>C9: after 25 complete exchanges on a new session, the 50 messages have been cut to
  the last 20: the stored history starts with the 31st message (the user message of the
  16th exchange).\<close>

theorem exchanges_25:
  "length es = 25 \<Longrightarrow>
   messages (exchanges (new_session sid t) es) = drop 30 (concat (map exchange_turns es))"
proof -
  assume len: "length es = 25"
  have "length (concat (map exchange_turns es)) = 2 * length es"
    by (induction es) (auto simp: exchange_turns_def split: prod.split)
  with len show ?thesis
    by (auto simp: messages_exchanges new_session_def trim_window_drop)
qed

text \<open>C19: every response other than the health check carries \<open>success\<close>, a
  boolean that is true exactly when the status is 200; the client reads the outcome of
  a request from that field alone.\<close>

theorem response_success_field:
  "r \<noteq> HealthReq \<Longrightarrow>
   js_prop (body (snd (handle_request cfg c r m))) (js ''success'') =
   JBool (status (snd (handle_request cfg c r m)) = 200)"
  by (cases r)
     (auto simp: handle_request_def chat_handler_def start_handler_def history_handler_def resources_handler_def
       not_found_handler_def error_middleware_def resp_empty_message_def resp_chat_error_def resp_chat_ok_def
       split_def Let_def split: message_check.split sum.split option.split del: js_Cons)

text \<open>C20: the id that the start route answers with can be read back at once: the
  history route finds an empty session under it, created and last active at the
  request time.\<close>

theorem start_then_history:
  "\<exists>sid. js_prop (body (snd (start_handler c m))) (js ''sessionId'') = JStr sid
     \<and> history_handler sid (fst (start_handler c m)) =
         \<lparr>status = 200,
          body = JObj [(js ''success'', JBool True), (js ''messages'', JArr []),
                       (js ''sessionInfo'',
                        JObj [(js ''id'', JStr sid), (js ''createdAt'', JDate (req_time c)),
                              (js ''lastActivity'', JDate (req_time c)), (js ''messageCount'', JNum 0)])]\<rparr>"
  by (simp add: start_handler_def start_session_def history_handler_def jmap_get_abs jmap_abs_set
      new_session_def Let_def del: js_Cons)

lemma prior_session_after_failure:
  assumes "\<not> api_key_set cfg" and valid: "check_message v = ValidMessage msg"
  shows "prior_session sid (req_time c) (fst (chat_handler cfg c sid v m)) =
         record_user_turn msg (req_time c) (prior_session sid (req_time c) m)"
  using assms
  by (simp add: chat_handler_valid [OF valid] Let_def callGeminiAPI_def prior_session_def jmap_get_abs
      jmap_abs_set del: check_message.simps)

text \<open>C27: the 20-message window is applied only after a reply is pushed, so while the
  provider fails every chat request adds one message and nothing trims: after \<open>n\<close>
  failed requests a session holds \<open>n\<close> more messages, past any bound.\<close>

theorem provider_failures_grow_history:
  "\<not> api_key_set cfg \<Longrightarrow> check_message v = ValidMessage msg \<Longrightarrow>
   length (messages (prior_session sid (req_time c) (server_run cfg m (replicate n (Request (ChatReq sid v) c))))) =
   length (messages (prior_session sid (req_time c) m)) + n"
proof (induction n arbitrary: m)
  case (Suc n)
  then show ?case
    by (simp add: handle_request_def split_def Let_def prior_session_after_failure record_user_turn_def
        del: check_message.simps)
qed simp

end
