(* ===== verification/Interleaving.thy ===== *)
theory Interleaving
  imports Server
begin

text \<open>
  The chat route of \<open>src/saathi-backend/server.js\<close> is an \<open>async\<close> handler: it runs
  synchronously up to \<open>await callGeminiAPI(...)\<close>, whose provider call is real I/O,
  and the rest of it runs when the provider answers. Other requests and the sweep can
  run in between, and the handler keeps a reference to the session object across the
  \<open>await\<close>: it pushes the reply onto that object, whether or not the registry still
  holds it. This theory therefore models the registry as a map from ids to addresses
  and the session objects as a heap (\<open>hstate\<close>); a chat request becomes a begin
  step, which leaves a pending continuation (\<open>pending\<close>), and a resume step, which
  the environment may schedule at any later point. A missing API key throws before
  the first real \<open>await\<close>, so that branch completes in the begin step. All other
  routes and the sweep run to completion in one step. \<open>materialize\<close> reads the state
  back as the registry of session values of \<open>SessionStore\<close>.
\<close>

type_synonym addr = nat

text \<open>The continuation of an awaiting chat request: the session object it holds, the
  id and crisis payload it will answer with, and the provider's answer to the request
  text it sent, with the clock reading at which it arrives.\<close>

record pending =
  p_addr :: addr
  p_sid :: jstr
  p_crisis :: "crisis_info option"
  p_result :: "jstr + jstr"
  p_time :: timestamp

record hstate =
  reg :: "(jstr, addr) jmap"
  heap :: "session list"
  inflight :: "pending list"

definition hinit :: hstate where
  "hinit = \<lparr>reg = [], heap = [], inflight = []\<rparr>"

definition materialize :: "hstate \<Rightarrow> registry" where
  "materialize st = jmap_map_vals (\<lambda>a. heap st ! a) (reg st)"

text \<open>A new session object, registered under \<open>sid\<close>.\<close>

definition alloc_session :: "jstr \<Rightarrow> timestamp \<Rightarrow> hstate \<Rightarrow> hstate \<times> addr" where
  "alloc_session sid now st =
     (let a = length (heap st)
      in (st\<lparr>heap := heap st @ [new_session sid now], reg := jmap_set (reg st) sid a\<rparr>, a))"

definition h_get_or_create :: "jstr \<Rightarrow> timestamp \<Rightarrow> hstate \<Rightarrow> hstate \<times> addr" where
  "h_get_or_create sid now st =
     (case jmap_get (reg st) sid of Some a \<Rightarrow> (st, a) | None \<Rightarrow> alloc_session sid now st)"

text \<open>The chat route up to its \<open>await\<close>. The request text is what \<open>callGeminiAPI\<close>
  builds before its own \<open>await\<close> (\<open>callGeminiAPI\<close> with the provider that returns its
  input).\<close>

definition h_chat_begin ::
  "config \<Rightarrow> collab \<Rightarrow> jstr \<Rightarrow> jsval \<Rightarrow> hstate \<Rightarrow> hstate \<times> http_response option" where
  "h_chat_begin cfg c sessionId message st =
     (case check_message message of
        EmptyMessage \<Rightarrow> (st, Some resp_empty_message)
      | NotAString \<Rightarrow> (st, Some (resp_chat_error cfg type_error_trim))
      | ValidMessage msg \<Rightarrow>
          (let (st1, a) = h_get_or_create sessionId (req_time c) st;
               session1 = record_user_turn msg (req_time c) (heap st1 ! a);
               st2 = st1\<lparr>heap := (heap st1)[a := session1]\<rparr>;
               isCrisis = containsCrisisKeywords msg;
               crisisInfo = (if isCrisis then Some getCrisisResources else None)
           in (case callGeminiAPI (api_key_set cfg) Inr msg (messages session1) of
                 Inl err \<Rightarrow> (st2, Some (resp_chat_error cfg err))
               | Inr request \<Rightarrow>
                   (st2\<lparr>inflight := inflight st2 @
                       [\<lparr>p_addr = a, p_sid = sessionId, p_crisis = crisisInfo,
                         p_result = req_provider c request, p_time = resume_time c\<rparr>]\<rparr>, None))))"

text \<open>The rest of the chat route, for the \<open>i\<close>-th awaiting request: the reply is pushed
  onto the session object the request holds.\<close>

definition h_chat_resume :: "config \<Rightarrow> nat \<Rightarrow> hstate \<Rightarrow> hstate \<times> http_response option" where
  "h_chat_resume cfg i st =
     (if i < length (inflight st) then
        (let p = inflight st ! i;
             st1 = st\<lparr>inflight := take i (inflight st) @ drop (Suc i) (inflight st)\<rparr>
         in (case p_result p of
               Inl err \<Rightarrow> (st1, Some (resp_chat_error cfg err))
             | Inr aiResponse \<Rightarrow>
                 (let session2 = record_assistant_turn aiResponse (p_time p) (p_crisis p) (heap st1 ! p_addr p)
                  in (st1\<lparr>heap := (heap st1)[p_addr p := session2]\<rparr>,
                      Some (resp_chat_ok aiResponse (p_crisis p) (p_sid p) (length (messages session2)))))))
      else (st, None))"

definition h_start :: "collab \<Rightarrow> hstate \<Rightarrow> hstate \<times> http_response" where
  "h_start c st =
     (let sessionId = generateSessionId (req_random c) (nat (req_time c))
      in (fst (alloc_session sessionId (req_time c) st), snd (start_handler c (materialize st))))"

definition h_sweep :: "timestamp \<Rightarrow> hstate \<Rightarrow> hstate" where
  "h_sweep now st = st\<lparr>reg := jmap_sweep_from (\<lambda>a. idle now (heap st ! a)) 0 (reg st)\<rparr>"

text \<open>The routes other than start and chat only read the registry.\<close>

definition h_handle :: "config \<Rightarrow> collab \<Rightarrow> request \<Rightarrow> hstate \<Rightarrow> hstate \<times> http_response option" where
  "h_handle cfg c r st =
     (case r of
        StartReq \<Rightarrow> (let (st', resp) = h_start c st in (st', Some resp))
      | ChatReq sid v \<Rightarrow> h_chat_begin cfg c sid v st
      | _ \<Rightarrow> (st, Some (snd (handle_request cfg c r (materialize st)))))"

datatype hevent = HRequest request collab | HResume nat | HTick timestamp

fun hstep :: "config \<Rightarrow> hstate \<Rightarrow> hevent \<Rightarrow> hstate \<times> http_response option" where
  "hstep cfg st (HRequest r c) = h_handle cfg c r st"
| "hstep cfg st (HResume i) = h_chat_resume cfg i st"
| "hstep cfg st (HTick now) = (h_sweep now st, None)"

fun hrun :: "config \<Rightarrow> hstate \<Rightarrow> hevent list \<Rightarrow> hstate" where
  "hrun cfg st [] = st"
| "hrun cfg st (e # es) = hrun cfg (fst (hstep cfg st e)) es"

inductive hreachable :: "config \<Rightarrow> hstate \<Rightarrow> bool" for cfg where
  init: "hreachable cfg hinit"
| step: "hreachable cfg st \<Longrightarrow> hreachable cfg (fst (hstep cfg st e))"

text \<open>A run of the atomic server as a run without interleaving: each request is
  followed at once by the resumption of its continuation, if it left one.\<close>

fun expand :: "event \<Rightarrow> hevent list" where
  "expand (Request r c) = [HRequest r c, HResume 0]"
| "expand (SweepTick now) = [HTick now]"

text \<open>The heap invariant: the registry is well formed, distinct ids refer to distinct
  objects, every referenced object is allocated and carries its id, and every
  awaiting request holds an allocated object.\<close>

definition hinv :: "hstate \<Rightarrow> bool" where
  "hinv st \<longleftrightarrow>
     jmap_wf (reg st) \<and> distinct (map snd (jmap_entries (reg st)))
     \<and> (\<forall>(k, a) \<in> set (jmap_entries (reg st)). a < length (heap st) \<and> session_id (heap st ! a) = k)
     \<and> (\<forall>p \<in> set (inflight st). p_addr p < length (heap st))"

text \<open>Concrete interleavings. \<open>collab_at t t' reply\<close> is a request made at \<open>t\<close>
  whose provider call returns \<open>reply\<close> at \<open>t'\<close>.\<close>

definition live_cfg :: config where
  "live_cfg = \<lparr>api_key_set = True, development = False\<rparr>"

definition collab_at :: "timestamp \<Rightarrow> timestamp \<Rightarrow> jstr \<Rightarrow> collab" where
  "collab_at t t' reply =
     \<lparr>req_time = t, resume_time = t', req_random = js ''0.k3j5h2g7f'', req_provider = (\<lambda>_. Inr reply)\<rparr>"

text \<open>Two chats on one session, the second sent while the first awaits its reply.\<close>

definition race_events :: "hevent list" where
  "race_events =
     [HRequest (ChatReq (js ''s1'') (JStr (js ''I want to die''))) (collab_at 0 1000 (js ''A'')),
      HRequest (ChatReq (js ''s1'') (JStr (js ''hello''))) (collab_at 10 1010 (js ''B'')),
      HResume 0, HResume 0]"


subsection \<open>Lemmas\<close>

lemma distinct_snd_jmap_set:
  "distinct (map snd (jmap_entries m)) \<Longrightarrow> v \<notin> snd ` set (jmap_entries m) \<Longrightarrow>
   distinct (map snd (jmap_entries (jmap_set m k v)))"
proof (induction m k v rule: jmap_set.induct)
  case (3 k' v' es k v)
  then show ?case
    using entries_jmap_set_subset [of es k v] by (auto simp: image_iff)
qed auto

lemma materialize_inflight [simp]: "materialize (st\<lparr>inflight := ps\<rparr>) = materialize st"
  by (simp add: materialize_def)

lemma hinv_entry:
  "hinv st \<Longrightarrow> (k, a) \<in> set (jmap_entries (reg st)) \<Longrightarrow> a < length (heap st) \<and> session_id (heap st ! a) = k"
  by (auto simp: hinv_def)

lemma hinv_inflight_subset:
  "hinv st \<Longrightarrow> set ps \<subseteq> set (inflight st) \<Longrightarrow> hinv (st\<lparr>inflight := ps\<rparr>)"
  by (auto simp: hinv_def)

lemma materialize_heap_update:
  assumes inv: "hinv st" and get: "jmap_get (reg st) sid = Some a"
  shows "materialize (st\<lparr>heap := (heap st)[a := s]\<rparr>) = jmap_set (materialize st) sid s"
proof -
  have e: "(sid, a) \<in> set (jmap_entries (reg st))" using get by (rule jmap_get_entries)
  then have lt: "a < length (heap st)" using inv by (simp add: hinv_entry)
  have upd: "(\<lambda>x. (heap st)[a := s] ! x) = (\<lambda>x. if x = a then s else heap st ! x)"
    using lt by (auto simp: nth_list_update)
  have inj: "\<forall>(k', a') \<in> set (jmap_entries (reg st)). a' = a \<longrightarrow> k' = sid"
    using inv e by (auto simp: hinv_def intro: distinct_map_snd_eq)
  show ?thesis
    using jmap_map_vals_update [OF _ get inj, of s "\<lambda>x. heap st ! x"] inv
    by (simp add: materialize_def upd hinv_def)
qed

lemma hinv_heap_update:
  assumes inv: "hinv st" and lt: "a < length (heap st)" and sid: "session_id s = session_id (heap st ! a)"
  shows "hinv (st\<lparr>heap := (heap st)[a := s]\<rparr>)"
  using inv lt sid by (auto simp: hinv_def nth_list_update)

lemma alloc_session_spec:
  assumes inv: "hinv st" and al: "alloc_session sid now st = (st', a)"
  shows "materialize st' = jmap_set (materialize st) sid (new_session sid now)
         \<and> hinv st' \<and> heap st' ! a = new_session sid now \<and> jmap_get (reg st') sid = Some a
         \<and> inflight st' = inflight st"
proof -
  let ?n = "new_session sid now"
  have st': "st' = st\<lparr>heap := heap st @ [?n], reg := jmap_set (reg st) sid (length (heap st))\<rparr>"
    and a: "a = length (heap st)"
    using al by (auto simp: alloc_session_def Let_def)
  have old: "\<forall>(k, b) \<in> set (jmap_entries (reg st)). (heap st @ [?n]) ! b = heap st ! b"
    using inv by (auto simp: hinv_def nth_append)
  have "materialize st' = jmap_set (jmap_map_vals (\<lambda>b. (heap st @ [?n]) ! b) (reg st)) sid ?n"
    by (simp add: st' materialize_def jmap_map_vals_set)
  also have "\<dots> = jmap_set (materialize st) sid ?n"
    using jmap_map_vals_cong [OF old] by (simp add: materialize_def)
  finally have m: "materialize st' = jmap_set (materialize st) sid ?n" .
  have fresh: "length (heap st) \<notin> snd ` set (jmap_entries (reg st))"
    using inv by (force simp: hinv_def)
  have "hinv st'"
    using inv fresh entries_jmap_set_subset [of "reg st" sid "length (heap st)"]
    by (auto simp: hinv_def st' jmap_wf_set distinct_snd_jmap_set nth_append new_session_def)
  moreover have "jmap_get (reg st') sid = Some a"
    by (simp add: st' a jmap_get_abs jmap_abs_set)
  ultimately show ?thesis using m by (simp add: st' a)
qed

lemma h_get_or_create_spec:
  assumes inv: "hinv st" and g: "h_get_or_create sid now st = (st1, a)"
  shows "get_or_create sid now (materialize st) = (materialize st1, heap st1 ! a)
         \<and> hinv st1 \<and> jmap_get (reg st1) sid = Some a \<and> inflight st1 = inflight st"
proof (cases "jmap_get (reg st) sid")
  case None
  then have "alloc_session sid now st = (st1, a)" using g by (simp add: h_get_or_create_def)
  with inv have "materialize st1 = jmap_set (materialize st) sid (new_session sid now)
         \<and> hinv st1 \<and> heap st1 ! a = new_session sid now \<and> jmap_get (reg st1) sid = Some a
         \<and> inflight st1 = inflight st" by (rule alloc_session_spec)
  with None show ?thesis
    by (simp add: get_or_create_new materialize_def jmap_get_map_vals)
next
  case (Some b)
  with g have "st1 = st" "a = b" by (simp_all add: h_get_or_create_def)
  with Some inv show ?thesis
    by (simp add: get_or_create_found materialize_def jmap_get_map_vals)
qed


lemma callGeminiAPI_request:
  "callGeminiAPI k p msg hs =
     (case callGeminiAPI k Inr msg hs of Inl e \<Rightarrow> Inl e | Inr q \<Rightarrow> p q)"
  by (simp add: callGeminiAPI_def)

lemma chat_begin_resume:
  assumes inv: "hinv st" and idle: "inflight st = []"
    and b: "h_chat_begin cfg c sid v st = (st1, o1)" and r: "h_chat_resume cfg 0 st1 = (st2, o2)"
  shows "materialize st2 = fst (chat_handler cfg c sid v (materialize st))
         \<and> (case o1 of None \<Rightarrow> o2 | Some x \<Rightarrow> Some x) = Some (snd (chat_handler cfg c sid v (materialize st)))
         \<and> hinv st2 \<and> inflight st2 = []"
proof (cases "check_message v")
  case (ValidMessage msg)
  obtain sa a where g: "h_get_or_create sid (req_time c) st = (sa, a)" by fastforce
  note ga = h_get_or_create_spec [OF inv g]
  have goc: "get_or_create sid (req_time c) (materialize st) = (materialize sa, heap sa ! a)"
    using ga by simp
  have lt: "a < length (heap sa)"
    using ga jmap_get_entries [of "reg sa" sid a] by (auto simp: hinv_def)
  let ?s1 = "record_user_turn msg (req_time c) (heap sa ! a)"
  let ?sb = "sa\<lparr>heap := (heap sa)[a := ?s1]\<rparr>"
  let ?ci = "if containsCrisisKeywords msg then Some getCrisisResources else None"
  have mb: "materialize ?sb = jmap_set (materialize sa) sid ?s1"
    using ga by (simp add: materialize_heap_update)
  have ib: "hinv ?sb" using ga lt by (simp add: hinv_heap_update)
  have gb: "jmap_get (reg ?sb) sid = Some a" using ga by simp
  have ltb: "a < length (heap ?sb)" using lt by simp
  have hbegin: "h_chat_begin cfg c sid v st =
     (case callGeminiAPI (api_key_set cfg) Inr msg (messages ?s1) of
        Inl err \<Rightarrow> (?sb, Some (resp_chat_error cfg err))
      | Inr q \<Rightarrow> (?sb\<lparr>inflight := inflight ?sb @
                   [\<lparr>p_addr = a, p_sid = sid, p_crisis = ?ci, p_result = req_provider c q,
                     p_time = resume_time c\<rparr>]\<rparr>, None))"
    unfolding h_chat_begin_def ValidMessage by (simp add: g Let_def)
  have handler: "chat_handler cfg c sid v (materialize st) =
     (case callGeminiAPI (api_key_set cfg) (req_provider c) msg (messages ?s1) of
        Inl err \<Rightarrow> (jmap_set (materialize sa) sid ?s1, resp_chat_error cfg err)
      | Inr reply \<Rightarrow>
          (jmap_set (jmap_set (materialize sa) sid ?s1) sid (record_assistant_turn reply (resume_time c) ?ci ?s1),
           resp_chat_ok reply ?ci sid (length (messages (record_assistant_turn reply (resume_time c) ?ci ?s1)))))"
    unfolding chat_handler_def ValidMessage by (simp add: goc Let_def split del: if_split split: sum.split)
  show ?thesis
  proof (cases "api_key_set cfg")
    case False
    then show ?thesis
      using b r hbegin handler mb ib ga idle by (auto simp: callGeminiAPI_def h_chat_resume_def)
  next
    case True
    let ?res = "req_provider c (build_context msg (messages ?s1))"
    have st1: "st1 = ?sb\<lparr>inflight :=
        [\<lparr>p_addr = a, p_sid = sid, p_crisis = ?ci, p_result = ?res, p_time = resume_time c\<rparr>]\<rparr>"
      and o1: "o1 = None"
      using b hbegin True ga idle by (simp_all add: callGeminiAPI_def)
    show ?thesis
    proof (cases ?res)
      case (Inl err)
      then show ?thesis
        using r st1 o1 handler mb ib True
        by (auto simp: h_chat_resume_def callGeminiAPI_def intro: hinv_inflight_subset)
    next
      case (Inr reply)
      let ?s2 = "record_assistant_turn reply (resume_time c) ?ci ?s1"
      let ?sc = "?sb\<lparr>inflight := []\<rparr>"
      have st2: "st2 = ?sc\<lparr>heap := (heap ?sc)[a := ?s2]\<rparr>"
        and o2: "o2 = Some (resp_chat_ok reply ?ci sid (length (messages ?s2)))"
        using r st1 Inr lt by (auto simp: h_chat_resume_def Let_def)
      have ic: "hinv ?sc" using ib by (simp add: hinv_inflight_subset)
      have "materialize st2 = jmap_set (materialize ?sc) sid ?s2"
        unfolding st2 by (rule materialize_heap_update [OF ic]) (simp add: ga)
      moreover have "hinv st2"
        unfolding st2 using ic ltb lt
        by (intro hinv_heap_update) (simp_all add: record_user_turn_def record_assistant_turn_def)
      ultimately show ?thesis
        using o1 o2 st2 Inr handler mb True by (simp add: callGeminiAPI_def)
    qed
  qed
qed (use b r idle inv in \<open>auto simp: h_chat_begin_def chat_handler_def h_chat_resume_def\<close>)


lemma materialize_sweep: "materialize (h_sweep now st) = sweep now (materialize st)"
  using jmap_map_vals_sweep [of "\<lambda>a. heap st ! a" "idle now" 0 "reg st"]
  by (simp add: materialize_def h_sweep_def sweep_def)

lemma inflight_h_sweep [simp]: "inflight (h_sweep now st) = inflight st"
  by (simp add: h_sweep_def)

lemma hinv_sweep: "hinv st \<Longrightarrow> hinv (h_sweep now st)"
  by (auto simp: hinv_def h_sweep_def jmap_wf_sweep jmap_sweep_entries distinct_map_filter)

lemma h_start_spec:
  assumes inv: "hinv st"
  shows "materialize (fst (h_start c st)) = fst (start_handler c (materialize st))
         \<and> snd (h_start c st) = snd (start_handler c (materialize st))
         \<and> hinv (fst (h_start c st)) \<and> inflight (fst (h_start c st)) = inflight st"
proof -
  let ?sid = "generateSessionId (req_random c) (nat (req_time c))"
  obtain st' a where al: "alloc_session ?sid (req_time c) st = (st', a)" by fastforce
  note sp = alloc_session_spec [OF inv al]
  show ?thesis
    using sp al by (simp add: h_start_def fst_start_handler start_session_def Let_def)
qed

lemma hinv_resume: "hinv st \<Longrightarrow> hinv (fst (h_chat_resume cfg i st))"
proof -
  assume inv: "hinv st"
  show ?thesis
  proof (cases "i < length (inflight st)")
    case True
    let ?p = "inflight st ! i"
    let ?st1 = "st\<lparr>inflight := take i (inflight st) @ drop (Suc i) (inflight st)\<rparr>"
    have i1: "hinv ?st1"
      using inv by (rule hinv_inflight_subset) (auto dest: in_set_takeD in_set_dropD)
    have lt: "p_addr ?p < length (heap ?st1)" using inv True by (simp add: hinv_def)
    have "hinv (?st1\<lparr>heap := (heap ?st1)[p_addr ?p :=
                   record_assistant_turn r t ci (heap ?st1 ! p_addr ?p)]\<rparr>)" for r t ci
      by (rule hinv_heap_update [OF i1 lt]) (simp add: record_assistant_turn_def)
    then show ?thesis
      using True i1 by (auto simp: h_chat_resume_def Let_def split: sum.split)
  qed (simp add: h_chat_resume_def inv)
qed

lemma hinv_begin: "hinv st \<Longrightarrow> hinv (fst (h_chat_begin cfg c sid v st))"
proof (cases "check_message v")
  case (ValidMessage msg)
  assume inv: "hinv st"
  obtain sa a where g: "h_get_or_create sid (req_time c) st = (sa, a)" by fastforce
  note ga = h_get_or_create_spec [OF inv g]
  have lt: "a < length (heap sa)"
    using ga jmap_get_entries [of "reg sa" sid a] by (auto simp: hinv_def)
  let ?s1 = "record_user_turn msg (req_time c) (heap sa ! a)"
  have ib: "hinv (sa\<lparr>heap := (heap sa)[a := ?s1]\<rparr>)" using ga lt by (simp add: hinv_heap_update)
  then show ?thesis
    using lt unfolding h_chat_begin_def ValidMessage
    by (auto simp: g Let_def hinv_def split: sum.split)
qed (simp_all add: h_chat_begin_def)

lemma hinv_hstep: "hinv st \<Longrightarrow> hinv (fst (hstep cfg st e))"
proof (cases e)
  case (HRequest r c)
  assume inv: "hinv st"
  then show ?thesis
    using HRequest h_start_spec [OF inv, of c]
    by (cases r) (simp_all add: h_handle_def hinv_begin split_def)
qed (simp_all add: hinv_resume hinv_sweep)

lemma h_handle_resume:
  assumes inv: "hinv st" and idle: "inflight st = []"
    and h: "h_handle cfg c r st = (st1, o1)" and res: "h_chat_resume cfg 0 st1 = (st2, o2)"
  shows "materialize st2 = fst (handle_request cfg c r (materialize st))
         \<and> (case o1 of None \<Rightarrow> o2 | Some x \<Rightarrow> Some x) = Some (snd (handle_request cfg c r (materialize st)))
         \<and> hinv st2 \<and> inflight st2 = []"
proof (cases r)
  case (ChatReq sid v)
  then show ?thesis
    using chat_begin_resume [OF inv idle _ res, of c sid v o1] h by (simp add: h_handle_def handle_request_def)
next
  case StartReq
  then show ?thesis
    using h_start_spec [OF inv, of c] h res idle
    by (auto simp: h_handle_def handle_request_def h_chat_resume_def split_def)
qed (use h res idle inv in \<open>auto simp: h_handle_def handle_request_def h_chat_resume_def\<close>)

lemma hrun_expand_step:
  assumes inv: "hinv st" and idle: "inflight st = []"
  shows "materialize (hrun cfg st (expand e)) = fst (server_step cfg (materialize st) e)
         \<and> hinv (hrun cfg st (expand e)) \<and> inflight (hrun cfg st (expand e)) = []"
proof (cases e)
  case (Request r c)
  obtain st1 o1 where h: "h_handle cfg c r st = (st1, o1)" by fastforce
  obtain st2 o2 where res: "h_chat_resume cfg 0 st1 = (st2, o2)" by fastforce
  show ?thesis
    using h_handle_resume [OF inv idle h res] Request h res by (simp add: split_def Let_def)
next
  case (SweepTick now)
  then show ?thesis using inv idle by (simp add: materialize_sweep hinv_sweep)
qed

lemma hinv_hreachable: "hreachable cfg st \<Longrightarrow> hinv st"
proof (induction rule: hreachable.induct)
  case init
  show ?case by (simp add: hinit_def hinv_def)
next
  case (step st e)
  from step.IH show ?case by (rule hinv_hstep)
qed


lemma hreachable_hrun: "hreachable cfg st \<Longrightarrow> hreachable cfg (hrun cfg st es)"
proof (induction es arbitrary: st)
  case (Cons e es)
  then show ?case by (simp add: hreachable.step)
qed simp

lemma hinv_registry_inv: "hinv st \<Longrightarrow> registry_inv (materialize st)"
  by (auto simp: hinv_def registry_inv_def jmap_wf_def materialize_def jmap_entries_map_vals
      comp_def case_prod_beta)



lemma check_die: "check_message (JStr (js ''I want to die'')) = ValidMessage (js ''I want to die'')"
  by (simp add: js_trim_def is_js_ws_def)
lemma check_hello: "check_message (JStr (js ''hello'')) = ValidMessage (js ''hello'')"
  by (simp add: js_trim_def is_js_ws_def)
lemma crisis_die: "containsCrisisKeywords (js ''I want to die'')"
  by (simp add: containsCrisisKeywords_def crisisKeywords_def lower_unit_def)
lemma crisis_hello: "\<not> containsCrisisKeywords (js ''hello'')"
  by (simp add: containsCrisisKeywords_def crisisKeywords_def lower_unit_def)

lemma race_1:
  "fst (hstep live_cfg hinit (HRequest (ChatReq (js ''s1'') (JStr (js ''I want to die''))) (collab_at 0 1000 (js ''A'')))) =
   \<lparr>reg = [Some (js ''s1'', 0)],
    heap = [\<lparr>session_id = js ''s1'', messages = [UserTurn (js ''I want to die'') 0], createdAt = 0, lastActivity = 0\<rparr>],
    inflight = [\<lparr>p_addr = 0, p_sid = js ''s1'', p_crisis = Some getCrisisResources, p_result = Inr (js ''A''), p_time = 1000\<rparr>]\<rparr>"
  by (simp add: h_handle_def h_chat_begin_def check_die h_get_or_create_def alloc_session_def hinit_def
      new_session_def record_user_turn_def callGeminiAPI_def collab_at_def live_cfg_def crisis_die Let_def
      del: js_Cons check_message.simps)


lemma race_2:
  "fst (hstep live_cfg
     \<lparr>reg = [Some (js ''s1'', 0)],
      heap = [\<lparr>session_id = js ''s1'', messages = [UserTurn (js ''I want to die'') 0], createdAt = 0, lastActivity = 0\<rparr>],
      inflight = [\<lparr>p_addr = 0, p_sid = js ''s1'', p_crisis = Some getCrisisResources, p_result = Inr (js ''A''), p_time = 1000\<rparr>]\<rparr>
     (HRequest (ChatReq (js ''s1'') (JStr (js ''hello''))) (collab_at 10 1010 (js ''B'')))) =
   \<lparr>reg = [Some (js ''s1'', 0)],
    heap = [\<lparr>session_id = js ''s1'', messages = [UserTurn (js ''I want to die'') 0, UserTurn (js ''hello'') 10],
             createdAt = 0, lastActivity = 10\<rparr>],
    inflight = [\<lparr>p_addr = 0, p_sid = js ''s1'', p_crisis = Some getCrisisResources, p_result = Inr (js ''A''), p_time = 1000\<rparr>,
                \<lparr>p_addr = 0, p_sid = js ''s1'', p_crisis = None, p_result = Inr (js ''B''), p_time = 1010\<rparr>]\<rparr>"
  by (simp add: h_handle_def h_chat_begin_def check_hello h_get_or_create_def
      record_user_turn_def callGeminiAPI_def collab_at_def live_cfg_def crisis_hello Let_def
      del: js_Cons check_message.simps)

lemma race_34:
  "fst (hstep live_cfg (fst (hstep live_cfg
     \<lparr>reg = [Some (js ''s1'', 0)],
      heap = [\<lparr>session_id = js ''s1'', messages = [UserTurn (js ''I want to die'') 0, UserTurn (js ''hello'') 10],
               createdAt = 0, lastActivity = 10\<rparr>],
      inflight = [\<lparr>p_addr = 0, p_sid = js ''s1'', p_crisis = Some getCrisisResources, p_result = Inr (js ''A''), p_time = 1000\<rparr>,
                  \<lparr>p_addr = 0, p_sid = js ''s1'', p_crisis = None, p_result = Inr (js ''B''), p_time = 1010\<rparr>]\<rparr>
     (HResume 0))) (HResume 0)) =
   \<lparr>reg = [Some (js ''s1'', 0)],
    heap = [\<lparr>session_id = js ''s1'',
             messages = [UserTurn (js ''I want to die'') 0, UserTurn (js ''hello'') 10,
                         AssistantTurn (js ''A'') 1000 (Some getCrisisResources), AssistantTurn (js ''B'') 1010 None],
             createdAt = 0, lastActivity = 10\<rparr>],
    inflight = []\<rparr>"
  by (simp add: h_chat_resume_def record_assistant_turn_def trim_window_def Let_def del: js_Cons)





subsection \<open>Properties\<close>

text \<open>C14: without interleaving the split server is the atomic one: a run in which every
  request's continuation is resumed before the next event arrives leaves, read back
  through the heap, the registry that the atomic server of \<open>Server\<close> computes.\<close>

theorem hrun_refines_server_run:
  "hinv st \<Longrightarrow> inflight st = [] \<Longrightarrow>
   materialize (hrun cfg st (concat (map expand es))) = server_run cfg (materialize st) es"
proof (induction es arbitrary: st)
  case (Cons e es)
  have hrun_app: "hrun cfg s (xs @ ys) = hrun cfg (hrun cfg s xs) ys" for s xs ys
    by (induction xs arbitrary: s) simp_all
  note st = hrun_expand_step [OF Cons.prems, of cfg e]
  show ?case using Cons.IH [OF conjunct1 [OF conjunct2 [OF st]] conjunct2 [OF conjunct2 [OF st]]] st
    by (simp add: hrun_app split_def)
qed simp

text \<open>C15: under every interleaving of requests, provider replies and sweep ticks, distinct
  ids refer to distinct session objects, every object referenced by the registry or by an
  awaiting request is allocated, and the registry read back is well formed with every
  session under its own id.\<close>

theorem hreachable_heap_inv: "hreachable cfg st \<Longrightarrow> hinv st \<and> registry_inv (materialize st)"
  using hinv_hreachable hinv_registry_inv by blast

text \<open>C16: concurrent chats on one session interleave their messages: when a second
  message arrives while the first awaits its reply, the stored conversation is
  user, user, assistant, assistant, and the reply carrying the crisis payload of the
  first message follows the second, unflagged message. The pairing of C7 does not hold
  for the program with its \<open>await\<close>.\<close>

theorem concurrent_chats_break_pairing:
  "hreachable live_cfg (hrun live_cfg hinit race_events)
   \<and> jmap_get (materialize (hrun live_cfg hinit race_events)) (js ''s1'') =
       Some \<lparr>session_id = js ''s1'',
             messages = [UserTurn (js ''I want to die'') 0, UserTurn (js ''hello'') 10,
                         AssistantTurn (js ''A'') 1000 (Some getCrisisResources), AssistantTurn (js ''B'') 1010 None],
             createdAt = 0, lastActivity = 10\<rparr>
   \<and> \<not> sessions_paired (materialize (hrun live_cfg hinit race_events))"
proof -
  have run: "hrun live_cfg hinit race_events =
   \<lparr>reg = [Some (js ''s1'', 0)],
    heap = [\<lparr>session_id = js ''s1'',
             messages = [UserTurn (js ''I want to die'') 0, UserTurn (js ''hello'') 10,
                         AssistantTurn (js ''A'') 1000 (Some getCrisisResources), AssistantTurn (js ''B'') 1010 None],
             createdAt = 0, lastActivity = 10\<rparr>],
    inflight = []\<rparr>"
    unfolding race_events_def by (simp only: hrun.simps race_1 race_2 race_34)
  show ?thesis
    using hreachable_hrun [OF hreachable.init, of live_cfg race_events]
    by (simp add: run materialize_def sessions_paired_def pair_ok_def crisis_of_def crisis_hello del: js_Cons)
qed




end
