(* ===== verification/Client.thy ===== *)
theory Client
  imports Http
begin

text \<open>
  The React client \<open>src/saathi-frontend/src/App.js\<close>. Its state is the seven
  \<open>useState\<close> hooks of the \<open>App\<close> component (the record \<open>ui\<close>), together with
  the asynchronous work it has started and not yet seen settle: \<open>startSession\<close>
  calls awaiting the server, \<open>sendMessage\<close> calls awaiting the server, and welcome
  timers not yet fired. Each handler runs up to its first \<open>await\<close> in the event that
  starts it and the rest of it in the event that settles it; state updates take effect
  at once, as React renders after every discrete event. An event on a control that the
  current render does not show, or shows disabled, does nothing. The responses arrive
  as the value \<open>response.json()\<close> produces, or as the message of the error that
  \<open>fetch\<close> or \<open>response.json()\<close> rejects with. \<open>view\<close> is what \<open>App\<close> renders
  from a state, with \<open>None\<close> where rendering throws; styling, scrolling and the
  clock display of message times are not modelled.
\<close>

subsection \<open>JavaScript values on the client\<close>

fun js_join :: "jstr \<Rightarrow> jstr list \<Rightarrow> jstr" where
  "js_join sep [] = []"
| "js_join sep [s] = s"
| "js_join sep (s # ss) = s @ sep @ js_join sep ss"

definition int_dec :: "int \<Rightarrow> jstr" where
  "int_dec n = (if n < 0 then [0x2D] @ dec (nat (- n)) else dec (nat n))"

text \<open>\<open>String(v)\<close>, as a template literal and \<open>new Error(v).message\<close> compute it. A
  \<open>Date\<close> never reaches the client (\<open>JSON.parse\<close> produces none); its case is
  completed with its ISO text.\<close>

fun js_to_string :: "jsval \<Rightarrow> jstr" where
  "js_to_string JUndefined = js ''undefined''"
| "js_to_string JNull = js ''null''"
| "js_to_string (JBool b) = (if b then js ''true'' else js ''false'')"
| "js_to_string (JNum n) = int_dec n"
| "js_to_string (JStr s) = s"
| "js_to_string (JArr vs) =
     js_join (js '','') (map (\<lambda>v. if v = JUndefined \<or> v = JNull then [] else js_to_string v) vs)"
| "js_to_string (JObj _) = js ''[object Object]''"
| "js_to_string (JDate t) = to_iso_string t"

text \<open>\<open>a || b\<close>.\<close>

definition js_or :: "jsval \<Rightarrow> jsval \<Rightarrow> jsval" where
  "js_or a b = (if js_truthy a then a else b)"

text \<open>What \<open>res.json(v)\<close> on the server and \<open>response.json()\<close> on the client make of
  a value: \<open>JSON.stringify\<close> drops properties whose value is \<open>undefined\<close>, writes
  \<open>undefined\<close> array elements as \<open>null\<close> and dates with \<open>toISOString\<close>;
  \<open>JSON.parse\<close> reads the text back.\<close>

fun json_wire :: "jsval \<Rightarrow> jsval" where
  "json_wire (JArr vs) = JArr (map (\<lambda>v. if v = JUndefined then JNull else json_wire v) vs)"
| "json_wire (JObj ps) = JObj (map (\<lambda>p. (fst p, json_wire (snd p))) (filter (\<lambda>p. snd p \<noteq> JUndefined) ps))"
| "json_wire (JDate t) = JStr (to_iso_string t)"
| "json_wire v = v"

text \<open>React's rendering of a value as a child: strings and numbers as text, \<open>null\<close>,
  \<open>undefined\<close> and booleans as nothing, arrays child by child; an object throws.\<close>

fun render_child :: "jsval \<Rightarrow> jstr option" where
  "render_child (JStr s) = Some s"
| "render_child (JNum n) = Some (int_dec n)"
| "render_child JNull = Some []"
| "render_child JUndefined = Some []"
| "render_child (JBool _) = Some []"
| "render_child (JArr vs) = map_option concat (those (map render_child vs))"
| "render_child (JObj _) = None"
| "render_child (JDate _) = None"

subsection \<open>State\<close>

text \<open>A message object of the \<open>messages\<close> state: \<open>{role, content, timestamp}\<close>,
  with \<open>crisis\<close> on assistant messages and \<open>isError\<close> on the fallback message; an
  absent property is \<open>undefined\<close>.\<close>

record cmsg =
  cm_role :: role
  cm_content :: jsval
  cm_timestamp :: timestamp
  cm_crisis :: jsval
  cm_isError :: bool

record ui =
  ui_sessionId :: jsval
  ui_messages :: "cmsg list"
  inputMessage :: jstr
  isLoading :: bool
  isTyping :: bool
  ui_error :: "jstr option"
  showWelcome :: bool
  starts_pending :: nat
  chats_pending :: nat
  welcome_timers :: nat

definition ui_init :: ui where
  "ui_init =
     \<lparr>ui_sessionId = JNull, ui_messages = [], inputMessage = [], isLoading = False, isTyping = False,
      ui_error = None, showWelcome = True, starts_pending = 0, chats_pending = 0, welcome_timers = 0\<rparr>"

text \<open>The requests the client sends: \<open>POST /api/session/start\<close>, and
  \<open>POST /api/chat/${sessionId}\<close> with the body \<open>{message}\<close>.\<close>

datatype creq = CStart | CChat jstr jstr

record quick =
  q_text :: jstr
  q_emoji :: jstr
  q_label :: jstr

definition quickMessages :: "quick list" where
  "quickMessages =
     [\<lparr>q_text = js ''I am feeling stressed about exams'', q_emoji = [0xD83D, 0xDCDA], q_label = js ''Exam Stress''\<rparr>,
      \<lparr>q_text = js ''Family pressure ho rahi hai'',
       q_emoji = [0xD83D, 0xDC68, 0x200D, 0xD83D, 0xDC69, 0x200D, 0xD83D, 0xDC67, 0x200D, 0xD83D, 0xDC66],
       q_label = js ''Family Pressure''\<rparr>,
      \<lparr>q_text = js ''I feel anxious about my future'', q_emoji = [0xD83D, 0xDE30], q_label = js ''Career Anxiety''\<rparr>,
      \<lparr>q_text = js ''Mood theek nahi hai aaj'', q_emoji = [0xD83D, 0xDE14], q_label = js ''Feeling Low''\<rparr>]"

definition welcome_text :: jstr where
  "welcome_text =
     js ''Hello! '' @ [0x92E, 0x948, 0x902] @ js '' Saathi '' @ [0x939, 0x942, 0x902, 0x964] @
     js '' I understand the pressures you face as an Indian student. Whether it's academic stress, family expectations, or just needing someone to talk to - I'm here for you. What would you like to share today?''"

definition fallback_text :: jstr where
  "fallback_text =
     js ''I'm sorry, I'm having trouble connecting right now. Please try again in a moment. If you're in crisis, please contact: Vandrevala Foundation: +91-9999-666-555''"

definition start_error_text :: jstr where
  "start_error_text = js ''Failed to start session. Please check if the backend server is running.''"

subsection \<open>Handlers\<close>

text \<open>\<open>startSession\<close> up to \<open>await fetch(...)\<close>.\<close>

definition startSession :: "ui \<Rightarrow> ui \<times> creq option" where
  "startSession ui = (ui\<lparr>starts_pending := Suc (starts_pending ui)\<rparr>, Some CStart)"

text \<open>The rest of \<open>startSession\<close>: on \<open>data.success\<close>, the id, the welcome screen
  hidden and a one-second timer set; a rejected \<open>fetch\<close> or \<open>response.json()\<close>
  sets the error; an unsuccessful body does nothing.\<close>

definition startSession_settled :: "jstr + jsval \<Rightarrow> ui \<Rightarrow> ui" where
  "startSession_settled r ui =
     (case r of
        Inl _ \<Rightarrow> ui\<lparr>ui_error := Some start_error_text\<rparr>
      | Inr data \<Rightarrow>
          if js_truthy (js_prop data (js ''success''))
          then ui\<lparr>ui_sessionId := js_prop data (js ''sessionId''), showWelcome := False,
                  welcome_timers := Suc (welcome_timers ui)\<rparr>
          else ui)"

text \<open>The \<open>setTimeout\<close> callback: \<open>setMessages([welcome])\<close>, replacing the list.\<close>

definition welcome_fired :: "timestamp \<Rightarrow> ui \<Rightarrow> ui" where
  "welcome_fired now ui =
     ui\<lparr>ui_messages := [\<lparr>cm_role = RoleAssistant, cm_content = JStr welcome_text, cm_timestamp = now,
                          cm_crisis = JNull, cm_isError = False\<rparr>]\<rparr>"

text \<open>\<open>sendMessage(message)\<close> up to \<open>await fetch(...)\<close>: the guard, the user message
  appended, the input cleared, loading and typing set, the error cleared.\<close>

definition sendMessage :: "jstr \<Rightarrow> timestamp \<Rightarrow> ui \<Rightarrow> ui \<times> creq option" where
  "sendMessage message now ui =
     (if js_trim message = [] \<or> \<not> js_truthy (ui_sessionId ui) \<or> isLoading ui then (ui, None)
      else
        (let userMessage = \<lparr>cm_role = RoleUser, cm_content = JStr (js_trim message), cm_timestamp = now,
                            cm_crisis = JUndefined, cm_isError = False\<rparr>
         in (ui\<lparr>ui_messages := ui_messages ui @ [userMessage], inputMessage := [], isLoading := True,
                isTyping := True, ui_error := None, chats_pending := Suc (chats_pending ui)\<rparr>,
             Some (CChat (js_to_string (ui_sessionId ui)) (js_trim message)))))"

text \<open>The outcome of the \<open>try\<close> block: the body when \<open>data.success\<close>, otherwise the
  message of the error thrown (\<open>data.error || 'Failed to get response'\<close>), or of the
  rejection of \<open>fetch\<close> or \<open>response.json()\<close>.\<close>

definition chat_outcome :: "jstr + jsval \<Rightarrow> jstr + jsval" where
  "chat_outcome r =
     (case r of
        Inl err \<Rightarrow> Inl err
      | Inr data \<Rightarrow>
          if js_truthy (js_prop data (js ''success'')) then Inr data
          else Inl (js_to_string (js_or (js_prop data (js ''error'')) (JStr (js ''Failed to get response'')))))"

text \<open>The rest of \<open>sendMessage\<close>: the reply appended, or the error set and the
  fallback message appended; then \<open>finally\<close> clears loading and typing.\<close>

definition sendMessage_settled :: "jstr + jsval \<Rightarrow> timestamp \<Rightarrow> ui \<Rightarrow> ui" where
  "sendMessage_settled r now ui =
     (let ui1 =
        (case chat_outcome r of
           Inr data \<Rightarrow>
             ui\<lparr>ui_messages := ui_messages ui @
                  [\<lparr>cm_role = RoleAssistant, cm_content = js_prop data (js ''message''), cm_timestamp = now,
                    cm_crisis = js_or (js_prop data (js ''crisis'')) JNull, cm_isError = False\<rparr>]\<rparr>
         | Inl msg \<Rightarrow>
             ui\<lparr>ui_error := Some msg,
                ui_messages := ui_messages ui @
                  [\<lparr>cm_role = RoleAssistant, cm_content = JStr fallback_text, cm_timestamp = now,
                    cm_crisis = JUndefined, cm_isError = True\<rparr>]\<rparr>)
      in ui1\<lparr>isLoading := False, isTyping := False\<rparr>)"

text \<open>\<open>handleKeyPress\<close>: Enter without Shift sends the input.\<close>

definition handleKeyPress :: "jstr \<Rightarrow> bool \<Rightarrow> timestamp \<Rightarrow> ui \<Rightarrow> ui \<times> creq option" where
  "handleKeyPress key shiftKey now ui =
     (if key = js ''Enter'' \<and> \<not> shiftKey then sendMessage (inputMessage ui) now ui else (ui, None))"

subsection \<open>Rendering\<close>

text \<open>Property access \<open>v.k\<close>: it throws on \<open>null\<close> and \<open>undefined\<close>.\<close>

definition js_get :: "jsval \<Rightarrow> jstr \<Rightarrow> jsval option" where
  "js_get v k = (if v = JNull \<or> v = JUndefined then None else Some (js_prop v k))"

text \<open>\<open>CrisisAlert\<close>: name and phone of the first two resources, and the crisis
  message. \<open>resources.slice(0, 2).map(...)\<close> throws unless \<open>resources\<close> is an
  array.\<close>

definition resource_line :: "jsval \<Rightarrow> (jstr \<times> jstr) option" where
  "resource_line r =
     (case (js_get r (js ''name''), js_get r (js ''phone'')) of
        (Some n, Some p) \<Rightarrow>
          (case (render_child n, render_child p) of (Some a, Some b) \<Rightarrow> Some (a, b) | _ \<Rightarrow> None)
      | _ \<Rightarrow> None)"

definition CrisisAlert :: "jsval \<Rightarrow> ((jstr \<times> jstr) list \<times> jstr) option" where
  "CrisisAlert crisis =
     (case js_prop crisis (js ''resources'') of
        JArr rs \<Rightarrow>
          (case (those (map resource_line (take 2 rs)), render_child (js_prop crisis (js ''message''))) of
             (Some ls, Some m) \<Rightarrow> Some (ls, m)
           | _ \<Rightarrow> None)
      | _ \<Rightarrow> None)"

text \<open>A rendered \<open>Message\<close>: on which side, its text, the error style, and the
  crisis alert when \<open>message.crisis\<close> is truthy.\<close>

record bubble =
  b_user :: bool
  b_text :: jstr
  b_error :: bool
  b_alert :: "((jstr \<times> jstr) list \<times> jstr) option"

definition Message :: "cmsg \<Rightarrow> bubble option" where
  "Message message =
     (let isUser = (cm_role message = RoleUser)
      in case render_child (cm_content message) of
           None \<Rightarrow> None
         | Some text \<Rightarrow>
             if js_truthy (cm_crisis message)
             then map_option (\<lambda>a. \<lparr>b_user = isUser, b_text = text, b_error = \<not> isUser \<and> cm_isError message,
                                   b_alert = Some a\<rparr>) (CrisisAlert (cm_crisis message))
             else Some \<lparr>b_user = isUser, b_text = text, b_error = \<not> isUser \<and> cm_isError message,
                        b_alert = None\<rparr>)"




definition send_enabled :: "ui \<Rightarrow> bool" where
  "send_enabled ui \<longleftrightarrow> \<not> (isLoading ui \<or> js_trim (inputMessage ui) = [])"


subsection \<open>Events\<close>

text \<open>What the render offers: the start button on the welcome screen, the chat
  controls when there is a session id; the quick buttons and the input are disabled
  while loading, the send button also while the input is blank.\<close>

definition chat_shown :: "ui \<Rightarrow> bool" where
  "chat_shown ui \<longleftrightarrow> js_truthy (ui_sessionId ui)"

datatype cevent =
  ClickStart
| StartSettled "jstr + jsval"
| WelcomeTimer timestamp
| TypeInput jstr
| ClickQuick nat timestamp
| ClickSend timestamp
| KeyPress jstr bool timestamp
| ChatSettled "jstr + jsval" timestamp

text \<open>The input's \<open>maxLength={500}\<close>: the browser keeps the value to 500 code units.\<close>

fun ui_step :: "ui \<Rightarrow> cevent \<Rightarrow> ui \<times> creq option" where
  "ui_step ui ClickStart = (if showWelcome ui then startSession ui else (ui, None))"
| "ui_step ui (StartSettled r) =
     (if starts_pending ui = 0 then (ui, None)
      else (startSession_settled r (ui\<lparr>starts_pending := starts_pending ui - 1\<rparr>), None))"
| "ui_step ui (WelcomeTimer now) =
     (if welcome_timers ui = 0 then (ui, None)
      else (welcome_fired now (ui\<lparr>welcome_timers := welcome_timers ui - 1\<rparr>), None))"
| "ui_step ui (TypeInput v) =
     (if chat_shown ui \<and> \<not> isLoading ui then (ui\<lparr>inputMessage := take 500 v\<rparr>, None) else (ui, None))"
| "ui_step ui (ClickQuick i now) =
     (if chat_shown ui \<and> \<not> isLoading ui \<and> i < length quickMessages
      then sendMessage (q_text (quickMessages ! i)) now ui else (ui, None))"
| "ui_step ui (ClickSend now) =
     (if chat_shown ui \<and> send_enabled ui then sendMessage (inputMessage ui) now ui else (ui, None))"
| "ui_step ui (KeyPress key shiftKey now) =
     (if chat_shown ui \<and> \<not> isLoading ui then handleKeyPress key shiftKey now ui else (ui, None))"
| "ui_step ui (ChatSettled r now) =
     (if chats_pending ui = 0 then (ui, None)
      else (sendMessage_settled r now (ui\<lparr>chats_pending := chats_pending ui - 1\<rparr>), None))"

fun ui_run :: "ui \<Rightarrow> cevent list \<Rightarrow> ui" where
  "ui_run ui [] = ui"
| "ui_run ui (e # es) = ui_run (fst (ui_step ui e)) es"

inductive ui_reachable :: "ui \<Rightarrow> bool" where
  init: "ui_reachable ui_init"
| step: "ui_reachable ui \<Longrightarrow> ui_reachable (fst (ui_step ui e))"

text \<open>The client's own invariant: at most one chat request awaits its response, the
  loading and typing flags say exactly whether one does, and the input holds at most
  500 code units.\<close>

definition ui_inv :: "ui \<Rightarrow> bool" where
  "ui_inv ui \<longleftrightarrow>
     chats_pending ui \<le> 1 \<and> (isLoading ui \<longleftrightarrow> chats_pending ui = 1) \<and> isTyping ui = isLoading ui
     \<and> length (inputMessage ui) \<le> 500"

text \<open>A start, a message typed and sent within the second after the session starts,
  then the welcome timer, then the reply.\<close>

definition welcome_race_events :: "cevent list" where
  "welcome_race_events =
     [ClickStart,
      StartSettled (Inr (JObj [(js ''success'', JBool True), (js ''sessionId'', JStr (js ''session_x''))])),
      TypeInput (js ''hi''), ClickSend 500, WelcomeTimer 1000,
      ChatSettled (Inr (JObj [(js ''success'', JBool True), (js ''message'', JStr (js ''hello'')),
                              (js ''crisis'', JNull)])) 2000]"

subsection \<open>Lemmas\<close>

lemma ui_inv_sendMessage: "ui_inv ui \<Longrightarrow> ui_inv (fst (sendMessage m now ui))"
  by (auto simp: ui_inv_def sendMessage_def Let_def)

lemma ui_inv_settled:
  "ui_inv ui \<Longrightarrow> chats_pending ui \<noteq> 0 \<Longrightarrow> ui_inv (sendMessage_settled r now (ui\<lparr>chats_pending := chats_pending ui - 1\<rparr>))"
  by (auto simp: ui_inv_def sendMessage_settled_def Let_def split: sum.split)

lemma ui_inv_step: "ui_inv ui \<Longrightarrow> ui_inv (fst (ui_step ui e))"
proof (cases e)
  case (ChatSettled r now)
  assume "ui_inv ui"
  with ChatSettled show ?thesis using ui_inv_settled [of ui r now] by simp
qed (auto simp: ui_inv_sendMessage handleKeyPress_def startSession_def startSession_settled_def
      welcome_fired_def split: sum.split, auto simp: ui_inv_def)

lemma ui_reachable_run: "ui_reachable ui \<Longrightarrow> ui_reachable (ui_run ui es)"
proof (induction es arbitrary: ui)
  case (Cons e es)
  then show ?case by (simp add: ui_reachable.step)
qed simp

lemma trim_hi: "js_trim (js ''hi'') = js ''hi''"
  by (simp add: js_trim_def is_js_ws_def)

lemma take_hi: "take 500 (js ''hi'') = js ''hi''"
  by (simp del: js_Cons)

lemma welcome_race_start:
  "fst (ui_step (fst (ui_step ui_init ClickStart))
     (StartSettled (Inr (JObj [(js ''success'', JBool True), (js ''sessionId'', JStr (js ''session_x''))])))) =
     ui_init\<lparr>ui_sessionId := JStr (js ''session_x''), showWelcome := False, welcome_timers := 1\<rparr>"
  by (simp add: ui_init_def startSession_def startSession_settled_def del: js_Cons)

lemma welcome_race_type:
  "fst (ui_step (ui_init\<lparr>ui_sessionId := JStr (js ''session_x''), showWelcome := False, welcome_timers := 1\<rparr>)
        (TypeInput (js ''hi''))) =
   ui_init\<lparr>ui_sessionId := JStr (js ''session_x''), showWelcome := False, welcome_timers := 1, inputMessage := js ''hi''\<rparr>"
  by (simp add: ui_init_def chat_shown_def take_hi del: js_Cons)

lemma welcome_race_send:
  "fst (ui_step (ui_init\<lparr>ui_sessionId := JStr (js ''session_x''), showWelcome := False, welcome_timers := 1, inputMessage := js ''hi''\<rparr>)
        (ClickSend 500)) =
   ui_init\<lparr>ui_sessionId := JStr (js ''session_x''), showWelcome := False, welcome_timers := 1,
           ui_messages := [\<lparr>cm_role = RoleUser, cm_content = JStr (js ''hi''), cm_timestamp = 500,
                            cm_crisis = JUndefined, cm_isError = False\<rparr>],
           isLoading := True, isTyping := True, chats_pending := 1\<rparr>"
  by (simp add: ui_init_def chat_shown_def send_enabled_def sendMessage_def trim_hi Let_def del: js_Cons)

lemma welcome_race_timer_reply:
  "fst (ui_step (fst (ui_step (ui_init\<lparr>ui_sessionId := JStr (js ''session_x''), showWelcome := False, welcome_timers := 1,
           ui_messages := [\<lparr>cm_role = RoleUser, cm_content = JStr (js ''hi''), cm_timestamp = 500,
                            cm_crisis = JUndefined, cm_isError = False\<rparr>],
           isLoading := True, isTyping := True, chats_pending := 1\<rparr>) (WelcomeTimer 1000)))
      (ChatSettled (Inr (JObj [(js ''success'', JBool True), (js ''message'', JStr (js ''hello'')),
                              (js ''crisis'', JNull)])) 2000)) =
   ui_init\<lparr>ui_sessionId := JStr (js ''session_x''), showWelcome := False,
           ui_messages := [\<lparr>cm_role = RoleAssistant, cm_content = JStr welcome_text, cm_timestamp = 1000,
                            cm_crisis = JNull, cm_isError = False\<rparr>,
                           \<lparr>cm_role = RoleAssistant, cm_content = JStr (js ''hello''), cm_timestamp = 2000,
                            cm_crisis = JNull, cm_isError = False\<rparr>]\<rparr>"
  by (simp add: ui_init_def welcome_fired_def sendMessage_settled_def chat_outcome_def js_or_def Let_def
      del: js_Cons)

lemma fallback_phone: "sublist (js ''+91-9999-666-555'') fallback_text"
proof -
  have "fallback_text = js ''I'm sorry, I'm having trouble connecting right now. Please try again in a moment. If you're in crisis, please contact: Vandrevala Foundation: '' @ js ''+91-9999-666-555''"
    unfolding fallback_text_def js_append [symmetric] by (simp del: js_Cons)
  then show ?thesis by (metis sublist_def append_Nil2)
qed

lemma sendMessage_request:
  "sendMessage m now ui = (ui', Some q) \<Longrightarrow>
   q = CChat (js_to_string (ui_sessionId ui)) (js_trim m) \<and> js_trim m \<noteq> []"
  by (auto simp: sendMessage_def Let_def split: if_splits)

lemma ui_step_chat_request:
  "ui_step ui e = (ui', Some (CChat seg msg)) \<Longrightarrow>
   \<exists>m. msg = js_trim m \<and> js_trim m \<noteq> [] \<and> seg = js_to_string (ui_sessionId ui)"
  by (cases e) (auto simp: startSession_def handleKeyPress_def dest!: sendMessage_request split: if_splits)

subsection \<open>Properties\<close>

text \<open>C21: in every state the client reaches, at most one chat request awaits its
  response, the loading and typing flags are set exactly while one does, and the input
  holds at most 500 code units: one client never has two chats in flight.\<close>

theorem ui_reachable_inv: "ui_reachable ui \<Longrightarrow> ui_inv ui"
proof (induction rule: ui_reachable.induct)
  case init
  show ?case by (simp add: ui_inv_def ui_init_def)
next
  case (step ui e)
  from step.IH show ?case by (rule ui_inv_step)
qed

text \<open>C22: the welcome timer replaces the message list: a message sent within the
  second after the session starts disappears from the conversation when the timer
  fires, and the reply is shown after the welcome text with no question before it.\<close>

theorem welcome_timer_drops_message:
  "ui_reachable (ui_run ui_init welcome_race_events)
   \<and> map cm_content (ui_messages (ui_run ui_init welcome_race_events)) = [JStr welcome_text, JStr (js ''hello'')]"
proof -
  have run: "ui_run ui_init welcome_race_events =
   ui_init\<lparr>ui_sessionId := JStr (js ''session_x''), showWelcome := False,
           ui_messages := [\<lparr>cm_role = RoleAssistant, cm_content = JStr welcome_text, cm_timestamp = 1000,
                            cm_crisis = JNull, cm_isError = False\<rparr>,
                           \<lparr>cm_role = RoleAssistant, cm_content = JStr (js ''hello''), cm_timestamp = 2000,
                            cm_crisis = JNull, cm_isError = False\<rparr>]\<rparr>"
    unfolding welcome_race_events_def by (simp only: ui_run.simps welcome_race_start welcome_race_type welcome_race_send welcome_race_timer_reply)
  show ?thesis
    using ui_reachable_run [OF ui_reachable.init, of welcome_race_events] by (simp add: run del: js_Cons)
qed


text \<open>C24: when a chat request fails (network error, unparsable body, or a body
  without success), the client shows the error, appends the fallback message in the
  error style, which gives the Vandrevala Foundation's number, and clears loading.\<close>

theorem chat_failure_fallback:
  assumes pending: "chats_pending ui \<noteq> 0" and fails: "chat_outcome r = Inl e"
  shows "ui_messages (fst (ui_step ui (ChatSettled r now))) =
           ui_messages ui @ [\<lparr>cm_role = RoleAssistant, cm_content = JStr fallback_text, cm_timestamp = now,
                              cm_crisis = JUndefined, cm_isError = True\<rparr>]
         \<and> ui_error (fst (ui_step ui (ChatSettled r now))) = Some e
         \<and> \<not> isLoading (fst (ui_step ui (ChatSettled r now))) \<and> \<not> isTyping (fst (ui_step ui (ChatSettled r now)))
         \<and> Message (last (ui_messages (fst (ui_step ui (ChatSettled r now))))) =
             Some \<lparr>b_user = False, b_text = fallback_text, b_error = True, b_alert = None\<rparr>
         \<and> sublist (js ''+91-9999-666-555'') fallback_text"
  using pending fails fallback_phone
  by (simp add: sendMessage_settled_def Let_def Message_def del: js_Cons)

end
