(* ===== verification/Witnesses.thy ===== *)
theory Witnesses
  imports Interleaving Client
begin

text \<open>
  Concrete requests on which the hypotheses of the component theorems hold: a
  configuration with the API key set and a request whose provider answers \<open>ok\<close>.
  Each witness applies its theorem at these inputs and evaluates the definitions.
\<close>

definition cfg0 :: config where "cfg0 = \<lparr>api_key_set = True, development = False\<rparr>"
definition c0 :: collab where
  "c0 = \<lparr>req_time = 1000, resume_time = 2000, req_random = js ''0.4fzyo82mvyr'', req_provider = (\<lambda>_. Inr (js ''ok''))\<rparr>"

definition cfg_nokey :: config where
  "cfg_nokey = \<lparr>api_key_set = False, development = True\<rparr>"

definition session_a :: session where
  "session_a = \<lparr>session_id = js ''a'', messages = [], createdAt = 0, lastActivity = 0\<rparr>"

definition run1 :: registry where
  "run1 = fst (server_step cfg0 [] (Request (ChatReq (js ''s1'') (JStr (js ''I want to die''))) c0))"


text \<open>A client with a session and \<open>hi\<close> typed, and a client awaiting a chat reply.\<close>

definition ui_ready :: ui where
  "ui_ready = ui_init\<lparr>ui_sessionId := JStr (js ''s1''), showWelcome := False, inputMessage := js ''hi''\<rparr>"

definition ui_awaiting :: ui where
  "ui_awaiting = ui_init\<lparr>ui_sessionId := JStr (js ''s1''), showWelcome := False, isLoading := True,
                         isTyping := True, chats_pending := 1\<rparr>"


lemma reachable_run1: "reachable cfg0 run1"
  unfolding run1_def by (rule reachable.step [OF reachable.init])

theorem reachable_registry_inv_witness: "reachable cfg0 run1 \<and> registry_inv run1"
  using reachable_run1 reachable_registry_inv [OF reachable_run1] by blast


theorem chat_empty_rejected_witness:
  "is_js_ws 0x20 \<and> is_js_ws 0x9 \<and> is_js_ws 0x3000
   \<and> chat_handler cfg0 c0 (js ''s1'') (JStr [0x20, 0x9, 0x3000]) [] = ([], resp_empty_message)"
proof -
  have h: "\<forall>u\<in>set [0x20, 0x9, 0x3000]. is_js_ws u" by (simp add: is_js_ws_def)
  show ?thesis using chat_empty_rejected [OF h] by (simp add: is_js_ws_def)
qed

theorem chat_success_witness:
  "check_message (JStr (js ''I want to die'')) = ValidMessage (js ''I want to die'')
   \<and> api_key_set cfg0
   \<and> req_provider c0 (build_context (js ''I want to die'')
        (messages (prior_session (js ''s1'') (req_time c0) []) @ [UserTurn (js ''I want to die'') (req_time c0)])) = Inr (js ''ok'')
   \<and> jmap_abs (fst (chat_handler cfg0 c0 (js ''s1'') (JStr (js ''I want to die'')) [])) =
       (jmap_abs [])(js ''s1'' \<mapsto> after_exchange (js ''I want to die'') (js ''ok'') 1000 2000 (new_session (js ''s1'') 1000))
   \<and> snd (chat_handler cfg0 c0 (js ''s1'') (JStr (js ''I want to die'')) []) =
       resp_chat_ok (js ''ok'') (Some getCrisisResources) (js ''s1'') 2"
proof -
  have h1: "check_message (JStr (js ''I want to die'')) = ValidMessage (js ''I want to die'')"
    by (simp add: js_trim_def is_js_ws_def)
  have h2: "api_key_set cfg0" by (simp add: cfg0_def)
  have h3: "req_provider c0 (build_context (js ''I want to die'')
        (messages (prior_session (js ''s1'') (req_time c0) []) @ [UserTurn (js ''I want to die'') (req_time c0)])) = Inr (js ''ok'')"
    by (simp add: c0_def)
  have cr: "crisis_of (js ''I want to die'') = Some getCrisisResources"
    by (simp add: crisis_of_def containsCrisisKeywords_def crisisKeywords_def lower_unit_def)
  have ps: "prior_session (js ''s1'') 1000 [] = new_session (js ''s1'') 1000"
    by (simp add: prior_session_def del: js_Cons)
  have rt: "req_time c0 = 1000" "resume_time c0 = 2000" by (simp_all add: c0_def)
  note th = chat_success [OF h1 h2 h3 prod.collapse [symmetric], unfolded rt ps cr]
  have th': "jmap_abs (fst (chat_handler cfg0 c0 (js ''s1'') (JStr (js ''I want to die'')) [])) =
       (jmap_abs [])(js ''s1'' \<mapsto> after_exchange (js ''I want to die'') (js ''ok'') 1000 2000 (new_session (js ''s1'') 1000))
   \<and> snd (chat_handler cfg0 c0 (js ''s1'') (JStr (js ''I want to die'')) []) =
       resp_chat_ok (js ''ok'') (Some getCrisisResources) (js ''s1'') 2"
    using th by (simp add: new_session_def numeral_2_eq_2 del: js_Cons)
  show ?thesis by (intro conjI h1 h2 h3 conjunct1 [OF th'] conjunct2 [OF th'])
qed
theorem chat_provider_failure_witness:
  "check_message (JStr (js ''hello'')) = ValidMessage (js ''hello'')
   \<and> callGeminiAPI (api_key_set cfg_nokey) (req_provider c0) (js ''hello'')
       (messages (prior_session (js ''s1'') (req_time c0) []) @ [UserTurn (js ''hello'') (req_time c0)])
     = Inl (js ''GEMINI_API_KEY not found in environment variables'')
   \<and> jmap_abs (fst (chat_handler cfg_nokey c0 (js ''s1'') (JStr (js ''hello'')) [])) =
       (jmap_abs [])(js ''s1'' \<mapsto> record_user_turn (js ''hello'') 1000 (new_session (js ''s1'') 1000))
   \<and> snd (chat_handler cfg_nokey c0 (js ''s1'') (JStr (js ''hello'')) []) =
       resp_chat_error cfg_nokey (js ''GEMINI_API_KEY not found in environment variables'')"
proof -
  have h1: "check_message (JStr (js ''hello'')) = ValidMessage (js ''hello'')"
    by (simp add: js_trim_def is_js_ws_def)
  have h2: "callGeminiAPI (api_key_set cfg_nokey) (req_provider c0) (js ''hello'')
       (messages (prior_session (js ''s1'') (req_time c0) []) @ [UserTurn (js ''hello'') (req_time c0)])
     = Inl (js ''GEMINI_API_KEY not found in environment variables'')"
    by (simp add: callGeminiAPI_def cfg_nokey_def del: js_Cons)
  have rt: "req_time c0 = 1000" by (simp add: c0_def)
  have ps: "prior_session (js ''s1'') 1000 [] = new_session (js ''s1'') 1000"
    by (simp add: prior_session_def del: js_Cons)
  note th = chat_provider_failure [OF h1 h2 prod.collapse [symmetric], unfolded rt ps]
  show ?thesis by (intro conjI h1 h2 conjunct1 [OF th] conjunct2 [OF th])
qed

theorem sweep_abs_witness:
  "registry_inv [Some (js ''a'', session_a)]
   \<and> jmap_abs (sweep 7200000 [Some (js ''a'', session_a)]) (js ''a'') = None
   \<and> jmap_abs (sweep 1800000 [Some (js ''a'', session_a)]) (js ''a'') = Some session_a"
proof -
  have inv: "registry_inv [Some (js ''a'', session_a)]"
    by (simp add: registry_inv_def session_a_def del: js_Cons)
  have old: "jmap_abs (sweep 7200000 [Some (js ''a'', session_a)]) (js ''a'') = None"
    using sweep_abs [OF inv, of 7200000 "js ''a''"] by (simp add: jmap_abs_def session_a_def del: js_Cons)
  have recent: "jmap_abs (sweep 1800000 [Some (js ''a'', session_a)]) (js ''a'') = Some session_a"
    using sweep_abs [OF inv, of 1800000 "js ''a''"] by (simp add: jmap_abs_def session_a_def del: js_Cons)
  show ?thesis using inv old recent by blast
qed


theorem exchanges_25_witness:
  "length (replicate 25 (js ''hi'', js ''ok'', 1, 2)) = 25
   \<and> messages (exchanges (new_session (js ''s1'') 0) (replicate 25 (js ''hi'', js ''ok'', 1, 2))) =
       drop 30 (concat (map exchange_turns (replicate 25 (js ''hi'', js ''ok'', 1, 2))))"
  using exchanges_25 [of "replicate 25 (js ''hi'', js ''ok'', 1, 2)" "js ''s1''" 0] by simp

theorem build_context_last_five_witness:
  "5 \<le> length (replicate 5 (UserTurn (js ''x'') 0))
   \<and> build_context (js ''m'') ([UserTurn (js ''y'') 0] @ replicate 5 (UserTurn (js ''x'') 0)) =
       build_context (js ''m'') (replicate 5 (UserTurn (js ''x'') 0))"
proof -
  have h: "5 \<le> length (replicate 5 (UserTurn (js ''x'') 0))" by simp
  show ?thesis using h build_context_last_five [OF h] by blast
qed

theorem containsCrisisKeywords_anywhere_witness:
  "js ''want to die'' \<in> set crisisKeywords \<and> to_lower (js ''Want To DIE'') = js ''want to die''
   \<and> containsCrisisKeywords (js ''I '' @ js ''Want To DIE'' @ js ''!'')"
proof -
  have h1: "js ''want to die'' \<in> set crisisKeywords" by (simp add: crisisKeywords_def del: js_Cons)
  have h2: "to_lower (js ''Want To DIE'') = js ''want to die''" by (simp add: lower_unit_def)
  show ?thesis using h1 h2 containsCrisisKeywords_anywhere [OF h1 h2] by blast
qed

theorem hrun_refines_server_run_witness:
  "hinv hinit \<and> inflight hinit = []
   \<and> materialize (hrun live_cfg hinit (concat (map expand [Request (ChatReq (js ''s1'') (JStr (js ''hello''))) c0])))
     = server_run live_cfg (materialize hinit) [Request (ChatReq (js ''s1'') (JStr (js ''hello''))) c0]"
proof -
  have h1: "hinv hinit" by (simp add: hinv_def hinit_def)
  have h2: "inflight hinit = []" by (simp add: hinit_def)
  show ?thesis using h1 h2 hrun_refines_server_run [OF h1 h2] by blast
qed

theorem hreachable_heap_inv_witness:
  "hreachable live_cfg (hrun live_cfg hinit race_events)
   \<and> hinv (hrun live_cfg hinit race_events) \<and> registry_inv (materialize (hrun live_cfg hinit race_events))"
proof -
  have h: "hreachable live_cfg (hrun live_cfg hinit race_events)"
    by (rule hreachable_hrun [OF hreachable.init])
  show ?thesis using h hreachable_heap_inv [OF h] by blast
qed


theorem response_success_field_witness:
  "StartReq \<noteq> HealthReq
   \<and> js_prop (body (snd (handle_request cfg0 c0 StartReq []))) (js ''success'') =
       JBool (status (snd (handle_request cfg0 c0 StartReq [])) = 200)"
  using response_success_field [of StartReq cfg0 c0 "[]"] by simp

theorem ui_reachable_inv_witness: "ui_reachable ui_init \<and> ui_inv ui_init"
  using ui_reachable_inv [OF ui_reachable.init] ui_reachable.init by blast

theorem chat_failure_fallback_witness:
  "chats_pending ui_awaiting \<noteq> 0 \<and> chat_outcome (Inl (js ''Failed to fetch'')) = Inl (js ''Failed to fetch'')
   \<and> ui_messages (fst (ui_step ui_awaiting (ChatSettled (Inl (js ''Failed to fetch'')) 7))) =
       [\<lparr>cm_role = RoleAssistant, cm_content = JStr fallback_text, cm_timestamp = 7,
         cm_crisis = JUndefined, cm_isError = True\<rparr>]
   \<and> ui_error (fst (ui_step ui_awaiting (ChatSettled (Inl (js ''Failed to fetch'')) 7))) = Some (js ''Failed to fetch'')"
proof -
  have h1: "chats_pending ui_awaiting \<noteq> 0" by (simp add: ui_awaiting_def ui_init_def)
  have h2: "chat_outcome (Inl (js ''Failed to fetch'')) = Inl (js ''Failed to fetch'')"
    by (simp add: chat_outcome_def del: js_Cons)
  have m: "ui_messages ui_awaiting = []" by (simp add: ui_awaiting_def ui_init_def)
  show ?thesis using h1 h2 chat_failure_fallback [OF h1 h2, of 7] m by (simp del: js_Cons)
qed

theorem provider_failures_grow_history_witness:
  "\<not> api_key_set cfg_nokey \<and> check_message (JStr (js ''hi'')) = ValidMessage (js ''hi'')
   \<and> length (messages (prior_session (js ''s1'') (req_time c0)
       (server_run cfg_nokey [] (replicate 25 (Request (ChatReq (js ''s1'') (JStr (js ''hi''))) c0))))) = 25"
proof -
  have h1: "\<not> api_key_set cfg_nokey" by (simp add: cfg_nokey_def)
  have h2: "check_message (JStr (js ''hi'')) = ValidMessage (js ''hi'')" by (simp add: js_trim_def is_js_ws_def)
  have z: "length (messages (prior_session (js ''s1'') (req_time c0) [])) = 0"
    by (simp add: prior_session_def new_session_def del: js_Cons)
  show ?thesis using h1 h2 z provider_failures_grow_history [OF h1 h2, of "js ''s1''" c0 "[]" 25] by simp
qed


end
