(* ===== verification/Spec2Isabelle.thy ===== *)
theory Spec2Isabelle
  imports Witnesses
begin

text \<open>
  \<^bold>\<open>Saathi: a verification development of the chat back end and its client.\<close>

  The program (\<open>src/saathi-backend/server.js\<close>, \<open>src/saathi-frontend/src/App.js\<close>) is
  an Express server that keeps conversations in an in-memory \<open>Map\<close> of sessions,
  flags crisis messages by keyword, forwards each message with a bounded history to a
  generative-language provider, and stores both sides of the exchange; and a React
  client that starts a session and sends messages. The development models it as
  plain HOL functions over explicit state, one theory per part, in this order:

  \<^item> \<open>Prelude\<close>: JavaScript strings as lists of UTF-16 code units (\<open>16 word\<close>),
    \<open>Date\<close> values as milliseconds (\<open>int\<close>), \<open>slice\<close> with negative indices.
  \<^item> \<open>JsString\<close>: \<open>toLowerCase\<close>, \<open>includes\<close> (proved equal to the library's
    contiguous \<open>sublist\<close>), \<open>trim\<close> with the ECMAScript white-space set, \<open>substr\<close>.
  \<^item> \<open>JsMap\<close>: the ECMAScript \<open>Map\<close> as a list of insertion-ordered slots with
    tombstones; \<open>get\<close>, \<open>set\<close>, \<open>delete\<close>, the live \<open>entries\<close>, and the loop
    that deletes entries while iterating them. Under the invariant that live keys are
    distinct, each operation refines the matching partial-map operation
    (\<open>jmap_abs\<close>), and the deleting loop equals a filter of the entries.
  \<^item> \<open>Base36\<close>: \<open>Number.prototype.toString(36)\<close> on naturals and its decoder, with
    the round trip.
  \<^item> \<open>DateIso\<close>: \<open>Date.prototype.toISOString\<close> on millisecond timestamps
    (the civil calendar from a day number), for the health route and the JSON form
    of dates.
  \<^item> \<open>Crisis\<close>: \<open>crisisKeywords\<close>, \<open>containsCrisisKeywords\<close>,
    \<open>getCrisisResources\<close> (server.js lines 28-145).
  \<^item> \<open>SessionStore\<close>: the session record, the two message shapes, \<open>generateSessionId\<close>,
    session creation (explicit and implicit), the two updates of the chat route, the
    20-message window, the hourly sweep and the registry invariant.
  \<^item> \<open>Prompt\<close>: the request text of \<open>callGeminiAPI\<close> (persona, last five messages,
    the new message, the cue) and the call itself with the provider as a parameter.
  \<^item> \<open>Http\<close> and \<open>Routes\<close>: request and response bodies as JavaScript values, and
    every route handler: start, chat, history, resources, the 404 handler and the error
    middleware. The chat handler is the whole of lines 185-261 with every early return
    and the \<open>catch\<close> as a branch.
  \<^item> \<open>Server\<close>: the process as a step function over routed requests and sweep
    ticks, the registries reachable from the empty one, and the invariants that hold in
    all of them.
  \<^item> \<open>Interleaving\<close>: the same server with the session objects in a heap that
    the registry references, the chat route split at its \<open>await\<close> into a begin step
    and a resume step, and runs that interleave requests, provider replies and sweep
    ticks in any order; \<open>materialize\<close> reads a heap state back as a registry.
  \<^item> \<open>Client\<close>: \<open>App.js\<close>: the \<open>useState\<close> hooks as the record \<open>ui\<close>,
    \<open>startSession\<close>, \<open>sendMessage\<close> and \<open>handleKeyPress\<close> split at their
    \<open>await\<close>s, the welcome timer, the controls as events that only the rendered and
    enabled controls produce (\<open>ui_step\<close>), and the render as data (\<open>view\<close>,
    \<open>Message\<close>, \<open>CrisisAlert\<close>); JSON over the wire (\<open>json_wire\<close>).
  \<^item> \<open>Witnesses\<close>: concrete requests and client states at which the hypotheses of
    the component theorems hold.
  \<^item> This theory: the client's requests as the server routes them
    (\<open>client_request\<close>) and the properties of client and server together.

  \<^bold>\<open>Collaborators.\<close> The provider is a function from request text to either the
  thrown error's message or the reply; the clock is read once before the provider call
  and once after it (\<open>req_time\<close>, \<open>resume_time\<close>), so every \<open>new Date()\<close> of one
  synchronous stretch reads the same instant; \<open>Math.random().toString(36)\<close> is an
  input string. Nothing else is assumed.

  \<^bold>\<open>What is proved.\<close> Chat route (\<open>Routes\<close>): the validation guard (C1),
  the full functional behaviour of a successful exchange (C2) and of a failed provider
  call (C3). Store (\<open>SessionStore\<close>): the sweep deletes exactly the sessions idle for
  more than an hour (C4), and with the hourly timer an idle session is kept between one
  and two hours (C28). Classifier (\<open>Crisis\<close>): keyword containment in the
  lower-cased message (C5), insensitivity to case and position (C12), the spec's
  examples, where the romanised Hindi example is not flagged (C13). Server
  (\<open>Server\<close>): in every reachable registry the store invariant holds (C6) and every
  stored assistant message follows the user message whose classification it carries
  (C7); the history route is read-only and answers 404 exactly for unknown ids (C8);
  after 25 exchanges the window keeps messages 31 to 50 (C9); every response but the
  health check says \<open>success\<close> exactly when its status is 200 (C19); a started id
  reads back through the history route (C20); while the provider fails, the history
  grows by one message per request, past the 20-message window (C27). Prompt (\<open>Prompt\<close>): only the last
  five history entries reach the provider (C10), and the new message appears twice in
  the request text (C11). Interleaving (\<open>Interleaving\<close>): runs without
  interleaving are the atomic server (C14, a refinement through \<open>materialize\<close>);
  the heap invariant holds under every interleaving (C15); C7 fails once two chats on
  one session overlap (C16); a sweep during the \<open>await\<close> loses an acknowledged
  reply (C17); every chat request is answered exactly once (C18). Client
  (\<open>Client\<close>): at most one chat in flight, with loading and typing flags exact and
  the input bounded by 500 code units (C21); the welcome timer erases a message sent
  in the first second (C22); a failed start sets an error that is never rendered
  (C23); a failed chat shows the fallback with the helpline number (C24). Together
  (this theory): every chat request of the client passes the server's guard (C25);
  one exchange end to end, with the crisis alert shown exactly for flagged messages
  (C26). Beside the claims: the refinement lemmas of \<open>JsMap\<close> (\<open>jmap_get_abs\<close>,
  \<open>jmap_abs_set\<close>, \<open>jmap_abs_delete\<close>, \<open>jmap_abs_sweep\<close>,
  \<open>jmap_map_vals_update\<close>), the base-36 round trip (\<open>parse36_base36\<close>), the
  session-id round trip and a collision of two generated ids
  (\<open>generateSessionId_collision\<close>), the idempotence of \<open>trim\<close>
  (\<open>js_trim_idem\<close>), and the ISO date strings of \<open>DateIso\<close> on sample instants.

  \<^bold>\<open>Time and identifiers.\<close> No fuel is used: every loop of the program
  (\<open>some\<close>, \<open>includes\<close>, \<open>forEach\<close>, the deleting \<open>for ... of\<close>) is a
  structural or measured recursion, and \<open>jmap_sweep_from\<close> terminates by the number
  of slots left to visit.

  \<^bold>\<open>Events and scheduling.\<close> Server and client run one handler segment per
  event: a segment runs from an event to the next \<open>await\<close> of real I/O, as the
  JavaScript event loop runs it. The environment chooses the order of events freely,
  including which awaiting chat request resumes next (\<open>HResume i\<close>); a missing API
  key throws before the first real \<open>await\<close>, so that branch completes in the begin
  step. On the client, state updates take effect before the next event, as React
  renders after each discrete event.

  \<^bold>\<open>Plan.\<close> Client and heap server run together as one interleaved
  system (several clients on one session reproduce C16); the start route under id
  collisions at the level of runs.

  \<^bold>\<open>Not modelled.\<close> URL parsing and percent-decoding (requests arrive as
  method, path segments and parsed body), \<open>helmet\<close>, \<open>cors\<close>, the JSON body
  parser's size limit and the rate limiter (library configuration); \<open>app.listen\<close>
  and \<open>dotenv\<close> (process I/O); the provider SDK (a collaborator);
  \<open>console.error\<close>; the Unicode case map beyond Latin-1 (identity in the model).
  On the client: CSS classes, \<open>scrollToBottom\<close> and its effect, the typing
  indicator's markup, and the clock display of message times
  (\<open>toLocaleTimeString\<close>, locale-dependent).
\<close>

subsection \<open>Client and server together\<close>

text \<open>The request the server sees for a request of the client: Express's routing of
  the URL the client builds (\<open>${API_BASE_URL}/chat/${sessionId}\<close>; the ids the
  server generates contain no character that \<open>fetch\<close> escapes) and the parsed JSON
  body.\<close>

definition client_request :: "creq \<Rightarrow> request" where
  "client_request q =
     (case q of
        CStart \<Rightarrow> route POST [js ''api'', js ''session'', js ''start''] (JObj [])
      | CChat seg msg \<Rightarrow> route POST [js ''api'', js ''chat'', seg] (JObj [(js ''message'', JStr msg)]))"

text \<open>The lines of the crisis alert the client shows for a payload: name and phone of
  the first two helplines, and the advisory message.\<close>

definition crisis_lines :: "crisis_info option \<Rightarrow> ((jstr \<times> jstr) list \<times> jstr) option" where
  "crisis_lines ci =
     map_option (\<lambda>c. (map (\<lambda>h. (name h, phone h)) (take 2 (resources c)), alert_message c)) ci"

subsection \<open>Lemmas\<close>

lemma json_wire_helpline [simp]: "json_wire (helpline_json h) = helpline_json h"
  by (simp add: helpline_json_def)

lemma helpline_json_defined [simp]: "helpline_json h \<noteq> JUndefined"
  by (simp add: helpline_json_def)

lemma json_wire_crisis_or_null [simp]: "json_wire (crisis_or_null ci) = crisis_or_null ci"
  by (simp add: crisis_or_null_def crisis_json_def comp_def split: option.split)

lemma json_wire_chat_ok:
  "json_wire (body (resp_chat_ok r ci sid n)) = body (resp_chat_ok r ci sid n)"
  by (simp add: resp_chat_ok_def crisis_or_null_def crisis_json_def split: option.split)

lemma route_chat:
  "s \<noteq> [] \<Longrightarrow> client_request (CChat s msg) = ChatReq s (JStr msg)"
  by (simp add: client_request_def route_def seg_is_def lower_unit_def)

lemma resource_line_helpline [simp]: "resource_line (helpline_json h) = Some (name h, phone h)"
  by (simp add: resource_line_def helpline_json_def js_get_def del: js_Cons)

lemma those_map_Some: "those (map (\<lambda>x. Some (f x)) xs) = Some (map f xs)"
  by (induction xs) auto

lemma Message_reply:
  "Message \<lparr>cm_role = RoleAssistant, cm_content = JStr r, cm_timestamp = t,
            cm_crisis = js_or (crisis_or_null ci) JNull, cm_isError = False\<rparr> =
   Some \<lparr>b_user = False, b_text = r, b_error = False, b_alert = crisis_lines ci\<rparr>"
  by (cases ci)
     (simp_all add: Message_def js_or_def crisis_or_null_def crisis_json_def CrisisAlert_def crisis_lines_def
       take_map comp_def those_map_Some del: js_Cons)

lemma check_message_trimmed: "js_trim m \<noteq> [] \<Longrightarrow> check_message (JStr (js_trim m)) = ValidMessage (js_trim m)"
  by (simp add: js_trim_idem)

subsection \<open>Properties\<close>

text \<open>C25: every chat request the client sends passes the server's validation: the
  client sends \<open>message.trim()\<close> and only when it is not empty, and trimming twice is
  trimming once.\<close>

theorem client_chat_passes_guard:
  "ui_step ui e = (ui', Some (CChat seg msg)) \<Longrightarrow> check_message (JStr msg) = ValidMessage msg"
  by (auto dest!: ui_step_chat_request simp: js_trim_idem)

text \<open>C26: one exchange end to end. A client with a session id and a message typed
  sends the trimmed message to \<open>/api/chat/<id>\<close>; the server records the user
  message and the reply under the id; the client, reading the JSON response, shows the
  message and the reply, and under the reply the crisis alert with the first two
  helplines exactly when the message is flagged.\<close>

theorem end_to_end_exchange:
  assumes sid: "ui_sessionId ui = JStr s" "s \<noteq> []"
    and ready: "\<not> isLoading ui" "chats_pending ui = 0"
    and msg: "js_trim (inputMessage ui) = msg" "msg \<noteq> []"
    and key: "api_key_set cfg"
    and gen: "req_provider c (build_context msg (messages (prior_session s (req_time c) m) @ [UserTurn msg (req_time c)])) = Inr r"
  shows "snd (ui_step ui (ClickSend t)) = Some (CChat s msg)
    \<and> client_request (CChat s msg) = ChatReq s (JStr msg)
    \<and> jmap_abs (fst (handle_request cfg c (ChatReq s (JStr msg)) m)) =
        (jmap_abs m)(s \<mapsto> after_exchange msg r (req_time c) (resume_time c) (prior_session s (req_time c) m))
    \<and> map cm_content (ui_messages (fst (ui_step (fst (ui_step ui (ClickSend t)))
          (ChatSettled (Inr (json_wire (body (snd (handle_request cfg c (ChatReq s (JStr msg)) m))))) t')))) =
        map cm_content (ui_messages ui) @ [JStr msg, JStr r]
    \<and> Message (last (ui_messages (fst (ui_step (fst (ui_step ui (ClickSend t)))
          (ChatSettled (Inr (json_wire (body (snd (handle_request cfg c (ChatReq s (JStr msg)) m))))) t'))))) =
        Some \<lparr>b_user = False, b_text = r, b_error = False, b_alert = crisis_lines (crisis_of msg)\<rparr>"
proof -
  let ?u = "\<lparr>cm_role = RoleUser, cm_content = JStr msg, cm_timestamp = t, cm_crisis = JUndefined, cm_isError = False\<rparr>"
  let ?ui1 = "ui\<lparr>ui_messages := ui_messages ui @ [?u], inputMessage := [], isLoading := True,
                  isTyping := True, ui_error := None, chats_pending := Suc 0\<rparr>"
  have send: "ui_step ui (ClickSend t) = (?ui1, Some (CChat s msg))"
    using sid ready msg by (simp add: chat_shown_def send_enabled_def sendMessage_def Let_def)
  have valid: "check_message (JStr msg) = ValidMessage msg"
    using check_message_trimmed [of "inputMessage ui"] msg by simp
  obtain m1 s0 where goc: "get_or_create s (req_time c) m = (m1, s0)" by fastforce
  then have s0: "s0 = prior_session s (req_time c) m" and m1: "jmap_abs m1 = (jmap_abs m)(s \<mapsto> s0)"
    by (auto dest: get_or_create_prior)
  let ?s2 = "record_assistant_turn r (resume_time c) (crisis_of msg) (record_user_turn msg (req_time c) s0)"
  have server: "handle_request cfg c (ChatReq s (JStr msg)) m =
      (jmap_set m1 s ?s2, resp_chat_ok r (crisis_of msg) s (length (messages ?s2)))"
    using key gen goc s0
    by (simp add: handle_request_def chat_handler_valid [OF valid] Let_def callGeminiAPI_def
        record_user_turn_def prior_session_def [symmetric] del: check_message.simps)
  have abs: "jmap_abs (jmap_set m1 s ?s2) =
      (jmap_abs m)(s \<mapsto> after_exchange msg r (req_time c) (resume_time c) (prior_session s (req_time c) m))"
    by (cases "prior_session s (req_time c) m")
       (simp add: jmap_abs_set m1 s0 after_exchange_def record_user_turn_def record_assistant_turn_def)
  have settle: "fst (ui_step ?ui1 (ChatSettled (Inr (json_wire (body (resp_chat_ok r (crisis_of msg) s n)))) t')) =
      ?ui1\<lparr>chats_pending := 0,
           ui_messages := ui_messages ?ui1 @
             [\<lparr>cm_role = RoleAssistant, cm_content = JStr r, cm_timestamp = t',
               cm_crisis = js_or (crisis_or_null (crisis_of msg)) JNull, cm_isError = False\<rparr>],
           isLoading := False, isTyping := False\<rparr>" for n
    by (simp add: json_wire_chat_ok sendMessage_settled_def chat_outcome_def resp_chat_ok_def Let_def del: js_Cons)
  show ?thesis
    unfolding server send by (simp add: settle route_chat sid Message_reply abs del: js_Cons ui_step.simps)
qed


theorem client_chat_passes_guard_witness:
  "ui_step ui_ready (ClickSend 5) =
     (fst (ui_step ui_ready (ClickSend 5)), Some (CChat (js ''s1'') (js ''hi'')))
   \<and> check_message (JStr (js ''hi'')) = ValidMessage (js ''hi'')"
proof -
  have h: "ui_step ui_ready (ClickSend 5) = (fst (ui_step ui_ready (ClickSend 5)), Some (CChat (js ''s1'') (js ''hi'')))"
    by (simp add: ui_ready_def ui_init_def chat_shown_def send_enabled_def sendMessage_def trim_hi Let_def
        del: js_Cons)
  show ?thesis using h client_chat_passes_guard [OF h] by blast
qed

theorem end_to_end_exchange_witness:
  "ui_sessionId ui_ready = JStr (js ''s1'') \<and> js ''s1'' \<noteq> [] \<and> \<not> isLoading ui_ready
   \<and> chats_pending ui_ready = 0 \<and> js_trim (inputMessage ui_ready) = js ''hi'' \<and> js ''hi'' \<noteq> []
   \<and> api_key_set cfg0
   \<and> req_provider c0 (build_context (js ''hi'') (messages (prior_session (js ''s1'') (req_time c0) []) @
        [UserTurn (js ''hi'') (req_time c0)])) = Inr (js ''ok'')
   \<and> snd (ui_step ui_ready (ClickSend 5)) = Some (CChat (js ''s1'') (js ''hi''))
   \<and> Message (last (ui_messages (fst (ui_step (fst (ui_step ui_ready (ClickSend 5)))
          (ChatSettled (Inr (json_wire (body (snd (handle_request cfg0 c0 (ChatReq (js ''s1'') (JStr (js ''hi''))) []))))) 9))))) =
        Some \<lparr>b_user = False, b_text = js ''ok'', b_error = False, b_alert = crisis_lines (crisis_of (js ''hi''))\<rparr>"
proof -
  have h1: "ui_sessionId ui_ready = JStr (js ''s1'')" by (simp add: ui_ready_def del: js_Cons)
  have h2: "js ''s1'' \<noteq> []" by (simp del: js_Cons)
  have h3: "\<not> isLoading ui_ready" and h4: "chats_pending ui_ready = 0"
    by (simp_all add: ui_ready_def ui_init_def)
  have h5: "js_trim (inputMessage ui_ready) = js ''hi''" by (simp add: ui_ready_def trim_hi del: js_Cons)
  have h6: "js ''hi'' \<noteq> []" by (simp del: js_Cons)
  have h7: "api_key_set cfg0" by (simp add: cfg0_def)
  have h8: "req_provider c0 (build_context (js ''hi'') (messages (prior_session (js ''s1'') (req_time c0) []) @
        [UserTurn (js ''hi'') (req_time c0)])) = Inr (js ''ok'')" by (simp add: c0_def del: js_Cons)
  show ?thesis using h1 h2 h3 h4 h5 h6 h7 h8 end_to_end_exchange [OF h1 h2 h3 h4 h5 h6 h7 h8, of 5 9] by blast
qed

end
